(* ===== verification/Prelude.thy ===== *)
theory Prelude
  imports Main "HOL-Library.Multiset"
begin

text \<open>
  Shared vocabulary of the development: the JavaScript value conventions the
  dashboard relies on (truthiness of possibly-null strings, the short-circuit
  \<open>||\<close> on strings), the removal of a settled promise from the list of pending
  ones, and the lemma collections the component theories use.
\<close>

named_theorems handler_defs "unfolding rules of the dashboard's event handlers"
named_theorems pending_simps "facts about the list of suspended analysis pipelines"

type_synonym session_id = string

subsection \<open>JavaScript truthiness on strings\<close>

text \<open>
  A JavaScript string field that may be \<open>null\<close> or \<open>undefined\<close> is a
  \<open>string option\<close>. It is truthy iff present and non-empty: \<open>if (!slot.session_id)\<close>
  rejects both a missing id and the empty string.
\<close>

fun truthy :: "string option \<Rightarrow> bool" where
  "truthy None = False"
| "truthy (Some s) = (s \<noteq> [])"

text \<open>\<open>a || b\<close> with \<open>a\<close> a possibly absent string and \<open>b\<close> a string.\<close>

definition js_or :: "string option \<Rightarrow> string \<Rightarrow> string" where
  "js_or a b = (if truthy a then the a else b)"

subsection \<open>Removing the i-th element\<close>

text \<open>
  A settled promise leaves the set of pending pipelines; pipelines are kept in
  the order they were started, so the i-th one is removed.
\<close>

definition remove_nth :: "nat \<Rightarrow> 'a list \<Rightarrow> 'a list" where
  "remove_nth i xs = take i xs @ drop (Suc i) xs"

subsection \<open>Lemmas on truthiness\<close>

lemma truthy_iff: "truthy a \<longleftrightarrow> (\<exists>s. a = Some s \<and> s \<noteq> [])"
  by (cases a) auto

lemma js_or_truthy [simp]: "js_or (Some s) b = (if s = [] then b else s)"
  by (simp add: js_or_def)

lemma js_or_None [simp]: "js_or None b = b"
  by (simp add: js_or_def)

lemma js_or_nonempty: "b \<noteq> [] \<Longrightarrow> js_or a b \<noteq> []"
  by (cases a) (auto simp: js_or_def)

subsection \<open>Lemmas on removal\<close>

lemma remove_nth_Cons [simp]:
  "remove_nth 0 (x # xs) = xs" "remove_nth (Suc i) (x # xs) = x # remove_nth i xs"
  by (simp_all add: remove_nth_def)

lemma remove_nth_last [simp]: "remove_nth (length xs) (xs @ [x]) = xs"
  by (simp add: remove_nth_def)

lemma length_remove_nth [pending_simps]:
  "i < length xs \<Longrightarrow> length (remove_nth i xs) = length xs - 1"
  by (simp add: remove_nth_def)

lemma length_remove_nth_le [pending_simps]: "length (remove_nth i xs) \<le> length xs"
  by (simp add: remove_nth_def)

lemma map_remove_nth [pending_simps]: "map f (remove_nth i xs) = remove_nth i (map f xs)"
  by (simp add: remove_nth_def take_map drop_map)

lemma set_remove_nth_subset [pending_simps]: "set (remove_nth i xs) \<subseteq> set xs"
  by (auto simp: remove_nth_def dest: in_set_takeD in_set_dropD)

lemma distinct_remove_nth [pending_simps]: "distinct xs \<Longrightarrow> distinct (remove_nth i xs)"
  by (auto simp: remove_nth_def dest: set_take_disj_set_drop_if_distinct [of xs i "Suc i"])

lemma set_remove_nth_distinct [pending_simps]:
  assumes "distinct xs" "i < length xs"
  shows "set (remove_nth i xs) = set xs - {xs ! i}"
proof -
  have xs: "xs = take i xs @ xs ! i # drop (Suc i) xs"
    using assms(2) by (simp add: id_take_nth_drop)
  then have "distinct (take i xs @ xs ! i # drop (Suc i) xs)"
    using assms(1) by simp
  then have "xs ! i \<notin> set (take i xs @ drop (Suc i) xs)"
    by auto
  moreover have "set xs = insert (xs ! i) (set (take i xs @ drop (Suc i) xs))"
    by (subst xs) auto
  ultimately show ?thesis by (auto simp: remove_nth_def)
qed

lemma nth_mem_set_remove_nth [pending_simps]:
  assumes "j < length xs" "j \<noteq> i"
  shows "xs ! j \<in> set (remove_nth i xs)"
proof (cases "j < i")
  case True
  with assms(1) have "xs ! j \<in> set (take i xs)"
    by (metis in_set_conv_nth length_take min_less_iff_conj nth_take)
  then show ?thesis by (simp add: remove_nth_def)
next
  case False
  with assms have "Suc i \<le> j" by simp
  with assms(1) have "drop (Suc i) xs ! (j - Suc i) = xs ! j" and "j - Suc i < length (drop (Suc i) xs)"
    by simp_all
  then have "xs ! j \<in> set (drop (Suc i) xs)" by (metis nth_mem)
  then show ?thesis by (simp add: remove_nth_def)
qed

subsection \<open>Updating one entry of a list of pipelines\<close>

lemma map_list_update_same [pending_simps]:
  "i < length xs \<Longrightarrow> f y = f (xs ! i) \<Longrightarrow> map f (xs[i := y]) = map f xs"
  by (simp add: map_update list_update_same_conv)

lemma distinct_map_filter_length [pending_simps]:
  "distinct (map f xs) \<Longrightarrow> length (filter (\<lambda>x. f x = a) xs) \<le> 1"
proof (induction xs)
  case Nil
  then show ?case by simp
next
  case (Cons x xs)
  show ?case
  proof (cases "f x = a")
    case True
    with Cons.prems have "filter (\<lambda>x. f x = a) xs = []"
      by (simp add: filter_empty_conv) (metis imageI)
    with True show ?thesis by simp
  next
    case False
    with Cons show ?thesis by simp
  qed
qed

subsection \<open>Finding the entry of a key\<close>

text \<open>
  When the keys of a list are distinct, \<open>find\<close> by key sees the entry at its
  position, follows an update of it, and loses it when it is removed; entries of
  other keys leave the result unchanged.
\<close>

lemma find_unique_nth [pending_simps]:
  assumes "distinct (map f xs)" "i < length xs"
  shows "find (\<lambda>p. f p = f (xs ! i)) xs = Some (xs ! i)"
proof -
  have "\<forall>j<i. f (xs ! j) \<noteq> f (xs ! i)"
  proof (intro allI impI)
    fix j assume "j < i"
    with assms have "map f xs ! j \<noteq> map f xs ! i"
      by (simp add: distinct_conv_nth)
    then show "f (xs ! j) \<noteq> f (xs ! i)" using \<open>j < i\<close> assms(2) by simp
  qed
  then show ?thesis using assms(2) by (auto simp: find_Some_iff)
qed

lemma find_update_other:
  "\<not> P (xs ! i) \<Longrightarrow> \<not> P y \<Longrightarrow> find P (xs[i := y]) = find P xs"
  by (induction xs arbitrary: i) (auto split: nat.splits)

lemma find_remove_other:
  "\<not> P (xs ! i) \<Longrightarrow> find P (remove_nth i xs) = find P xs"
proof (induction xs arbitrary: i)
  case Nil
  then show ?case by (simp add: remove_nth_def)
next
  case (Cons x xs)
  then show ?case by (cases i) auto
qed

lemma find_update_unique:
  assumes "distinct (map f xs)" "i < length xs" "f y = f (xs ! i)"
  shows "find (\<lambda>p. f p = f (xs ! i)) (xs[i := y]) = Some y"
proof -
  have "distinct (map f (xs[i := y]))" using assms by (simp add: map_list_update_same)
  then have "find (\<lambda>p. f p = f (xs[i := y] ! i)) (xs[i := y]) = Some (xs[i := y] ! i)"
    using assms(2) by (intro find_unique_nth) simp_all
  then show ?thesis using assms(2,3) by simp
qed

lemma find_remove_unique:
  assumes "distinct (map f xs)" "i < length xs"
  shows "find (\<lambda>p. f p = f (xs ! i)) (remove_nth i xs) = None"
proof -
  have "set (remove_nth i (map f xs)) = set (map f xs) - {map f xs ! i}"
    using assms by (intro set_remove_nth_distinct) simp_all
  then have "f (xs ! i) \<notin> f ` set (remove_nth i xs)"
    using assms(2) by (simp add: map_remove_nth [symmetric])
  then show ?thesis by (simp add: find_None_iff) (metis imageI)
qed
end
