(* ===== verification/Courts.thy ===== *)
theory Courts
  imports Prelude
begin

text \<open>
  The court-listing collaborator of \<open>src/src/AdminDashboard.js\<close>: the time-slot and
  court objects, the mock data the dashboard loads in place of \<open>GET /courts\<close>
  (\<open>mockData\<close>, lines 21--42), the order the cards are rendered in (the
  \<open>.sort\<close> of line 167), the court selected by the tab bar (line 148) and the
  conditions under which an expanded card offers the analysis button (lines 170
  and 205--225).
\<close>

subsection \<open>Slots and courts\<close>

text \<open>
  A slot is a JSON object. Fields that are \<open>null\<close> or missing in the data are
  options: available slots have \<open>session_id: null\<close> and no \<open>bookedBy\<close>,
  \<open>cost\<close> or \<open>startHour\<close>. JavaScript numbers that occur here are integers.
\<close>

record slot =
  slot_id :: string
  time :: string
  status :: string
  session_id :: "string option"
  is_past :: bool
  bookedBy :: "string option"
  cost :: "int option"
  startHour :: "int option"

record court =
  court_id :: string
  court_name :: string
  time_slots :: "slot list"

definition booked_slot :: "string \<Rightarrow> string \<Rightarrow> string \<Rightarrow> bool \<Rightarrow> string \<Rightarrow> int \<Rightarrow> slot" where
  "booked_slot i t sid past who h =
     \<lparr>slot_id = i, time = t, status = ''booked'', session_id = Some sid, is_past = past,
      bookedBy = Some who, cost = Some 10, startHour = Some h\<rparr>"

definition available_slot :: "string \<Rightarrow> string \<Rightarrow> slot" where
  "available_slot i t =
     \<lparr>slot_id = i, time = t, status = ''available'', session_id = None, is_past = False,
      bookedBy = None, cost = None, startHour = None\<rparr>"

definition mockData :: "court list" where
  "mockData =
    [\<lparr>court_id = ''court_1'', court_name = ''Court 1'', time_slots =
      [booked_slot ''slot_c1_9am'' ''09:00'' ''sess_xyz_mock_court1_9am'' True ''John Doe'' 9,
       booked_slot ''slot_c1_10am'' ''10:00'' ''sess_abc_mock_court1_10am'' True ''Jane Smith'' 10,
       booked_slot ''slot_c1_11am'' ''11:00'' ''sess_def_mock_court1_11am'' False ''Alice King'' 11,
       available_slot ''slot_c1_12pm'' ''12:00'',
       available_slot ''slot_c1_8am'' ''08:00'']\<rparr>,
     \<lparr>court_id = ''court_2'', court_name = ''Court 2'', time_slots =
      [booked_slot ''slot_c2_9am'' ''09:00'' ''sess_ghi_mock_court2_9am'' True ''Bob Lee'' 9,
       available_slot ''slot_c2_10am'' ''10:00'']\<rparr>]"

text \<open>The court list of the tab bar is the constant \<open>COURTS\<close> (line 18); it is never read.\<close>

definition COURTS :: "string list" where
  "COURTS = [''Court 1'', ''Court 2'']"

subsection \<open>The render order: \<open>sort((a, b) => a.startHour - b.startHour)\<close>\<close>

text \<open>
  The comparator subtracts two possibly-undefined numbers: \<open>undefined - 9\<close> is
  \<open>NaN\<close>, which \<open>Array.prototype.sort\<close> reads as \<open>+0\<close> (ECMAScript
  SortCompare). A comparator value is therefore an integer, with \<open>NaN\<close> mapped to 0.
\<close>

datatype js_number = Num int | NaN

fun js_sub :: "int option \<Rightarrow> int option \<Rightarrow> js_number" where
  "js_sub (Some x) (Some y) = Num (x - y)"
| "js_sub _ _ = NaN"

definition compareStartHour :: "slot \<Rightarrow> slot \<Rightarrow> js_number" where
  "compareStartHour a b = js_sub (startHour a) (startHour b)"

fun sort_compare :: "js_number \<Rightarrow> int" where
  "sort_compare (Num v) = v"
| "sort_compare NaN = 0"

text \<open>
  ECMAScript fixes the result of \<open>sort\<close> only for a consistent comparator
  (ECMA-262, \<open>Array.prototype.sort\<close>): it never returns \<open>NaN\<close>, its
  "equal" is reflexive, symmetric and transitive, and its "less" and "greater" are
  transitive, on the elements of the array.
\<close>

definition consistent_comparator :: "('a \<Rightarrow> 'a \<Rightarrow> js_number) \<Rightarrow> 'a list \<Rightarrow> bool" where
  "consistent_comparator cmp xs \<longleftrightarrow>
     (\<forall>a\<in>set xs. \<forall>b\<in>set xs. cmp a b \<noteq> NaN) \<and>
     (\<forall>a\<in>set xs. sort_compare (cmp a a) = 0) \<and>
     (\<forall>a\<in>set xs. \<forall>b\<in>set xs. sort_compare (cmp a b) = 0 \<longrightarrow> sort_compare (cmp b a) = 0) \<and>
     (\<forall>a\<in>set xs. \<forall>b\<in>set xs. \<forall>c\<in>set xs.
        (sort_compare (cmp a b) = 0 \<longrightarrow> sort_compare (cmp b c) = 0 \<longrightarrow> sort_compare (cmp a c) = 0) \<and>
        (sort_compare (cmp a b) < 0 \<longrightarrow> sort_compare (cmp b c) < 0 \<longrightarrow> sort_compare (cmp a c) < 0) \<and>
        (0 < sort_compare (cmp a b) \<longrightarrow> 0 < sort_compare (cmp b c) \<longrightarrow> 0 < sort_compare (cmp a c)))"

text \<open>
  A stable comparison sort (ECMAScript 2019 requires stability): insertion sort,
  an element going before the first one it does not compare greater than. Under a
  consistent comparator every stable sort gives this order; otherwise the order is
  implementation-defined, which the model returns as \<open>None\<close>.
\<close>

fun insort_cmp :: "('a \<Rightarrow> 'a \<Rightarrow> int) \<Rightarrow> 'a \<Rightarrow> 'a list \<Rightarrow> 'a list" where
  "insort_cmp cmp x [] = [x]"
| "insort_cmp cmp x (y # ys) = (if cmp x y \<le> 0 then x # y # ys else y # insort_cmp cmp x ys)"

definition sort_cmp :: "('a \<Rightarrow> 'a \<Rightarrow> int) \<Rightarrow> 'a list \<Rightarrow> 'a list" where
  "sort_cmp cmp xs = foldr (insort_cmp cmp) xs []"

definition sortSlots :: "slot list \<Rightarrow> slot list option" where
  "sortSlots xs =
     (if consistent_comparator compareStartHour xs
      then Some (sort_cmp (\<lambda>a b. sort_compare (compareStartHour a b)) xs) else None)"

subsection \<open>Court selection and the card's footer\<close>

definition selectedCourtData :: "court list \<Rightarrow> string \<Rightarrow> court option" where
  "selectedCourtData cs key = find (\<lambda>c. court_name c = key) cs"

definition showAnalyzeButton :: "slot \<Rightarrow> bool" where
  "showAnalyzeButton slot \<longleftrightarrow> status slot = ''Booked'' \<and> is_past slot \<and> truthy (session_id slot)"

datatype footer = Analyze_button | Analysis_unavailable | Upcoming_booking

text \<open>The three independent conditionals under an expanded card (lines 205--225).\<close>

definition card_footer :: "slot \<Rightarrow> bool \<Rightarrow> footer list" where
  "card_footer slot isExpanded =
     (if isExpanded \<and> showAnalyzeButton slot then [Analyze_button] else []) @
     (if isExpanded \<and> status slot = ''Booked'' \<and> is_past slot \<and> \<not> showAnalyzeButton slot
      then [Analysis_unavailable] else []) @
     (if isExpanded \<and> status slot = ''Booked'' \<and> \<not> is_past slot then [Upcoming_booking] else [])"

subsection \<open>The mock data, by slot\<close>

lemma mock_slots:
  "concat (map time_slots mockData) =
     [booked_slot ''slot_c1_9am'' ''09:00'' ''sess_xyz_mock_court1_9am'' True ''John Doe'' 9,
      booked_slot ''slot_c1_10am'' ''10:00'' ''sess_abc_mock_court1_10am'' True ''Jane Smith'' 10,
      booked_slot ''slot_c1_11am'' ''11:00'' ''sess_def_mock_court1_11am'' False ''Alice King'' 11,
      available_slot ''slot_c1_12pm'' ''12:00'',
      available_slot ''slot_c1_8am'' ''08:00'',
      booked_slot ''slot_c2_9am'' ''09:00'' ''sess_ghi_mock_court2_9am'' True ''Bob Lee'' 9,
      available_slot ''slot_c2_10am'' ''10:00'']"
  by (simp add: mockData_def)

lemma mock_court1:
  "time_slots (mockData ! 0) =
     [booked_slot ''slot_c1_9am'' ''09:00'' ''sess_xyz_mock_court1_9am'' True ''John Doe'' 9,
      booked_slot ''slot_c1_10am'' ''10:00'' ''sess_abc_mock_court1_10am'' True ''Jane Smith'' 10,
      booked_slot ''slot_c1_11am'' ''11:00'' ''sess_def_mock_court1_11am'' False ''Alice King'' 11,
      available_slot ''slot_c1_12pm'' ''12:00'',
      available_slot ''slot_c1_8am'' ''08:00'']"
  by (simp add: mockData_def)

subsection \<open>The comparator and the sort\<close>

lemma compareStartHour_defined:
  "startHour a \<noteq> None \<Longrightarrow> startHour b \<noteq> None \<Longrightarrow>
   compareStartHour a b = Num (the (startHour a) - the (startHour b))"
  by (auto simp: compareStartHour_def)

lemma consistent_all_defined:
  "list_all (\<lambda>s. startHour s \<noteq> None) xs \<Longrightarrow> consistent_comparator compareStartHour xs"
  by (auto simp: consistent_comparator_def compareStartHour_defined list_all_iff)

lemma consistent_no_NaN:
  "consistent_comparator cmp xs \<Longrightarrow> a \<in> set xs \<Longrightarrow> b \<in> set xs \<Longrightarrow> cmp a b \<noteq> NaN"
  unfolding consistent_comparator_def by blast

lemma insort_cmp_key:
  "\<forall>y\<in>set ys. cmp x y = k x - k y \<Longrightarrow> insort_cmp cmp x ys = insort_key k x ys"
  by (induction ys) auto

lemma sort_cmp_key:
  "\<forall>x\<in>set xs. \<forall>y\<in>set xs. cmp x y = k x - k y \<Longrightarrow> sort_cmp cmp xs = sort_key k xs"
proof (induction xs)
  case Nil
  then show ?case by (simp add: sort_cmp_def)
next
  case (Cons x xs)
  then have "sort_cmp cmp xs = sort_key k xs" by simp
  moreover have "\<forall>y\<in>set (sort_key k xs). cmp x y = k x - k y"
    using Cons.prems by simp
  ultimately show ?case
    by (simp add: sort_cmp_def insort_cmp_key)
qed

lemma mset_insort_cmp: "mset (insort_cmp cmp x ys) = add_mset x (mset ys)"
  by (induction ys) auto

lemma mset_sort_cmp: "mset (sort_cmp cmp xs) = mset xs"
  by (induction xs) (simp_all add: sort_cmp_def mset_insort_cmp)

lemma sortSlots_undefined:
  assumes "s \<in> set xs" "startHour s = None"
  shows "sortSlots xs = None"
proof -
  have "compareStartHour s s = NaN" using assms(2) by (simp add: compareStartHour_def)
  then have "\<not> consistent_comparator compareStartHour xs"
    using assms(1) consistent_no_NaN by metis
  then show ?thesis by (simp add: sortSlots_def)
qed

text \<open>
  C10. When every slot of a court has a start hour, rendering sorts the cards
  exactly as the library's stable sort by start hour does: the comparator
  \<open>a.startHour - b.startHour\<close> is consistent, and the stable sort it drives is
  \<open>sort_key\<close>.
\<close>

theorem sortSlots_sort_key:
  assumes "list_all (\<lambda>s. startHour s \<noteq> None) xs"
  shows "sortSlots xs = Some (sort_key (\<lambda>s. the (startHour s)) xs)"
proof -
  have "\<forall>x\<in>set xs. \<forall>y\<in>set xs.
          sort_compare (compareStartHour x y) = the (startHour x) - the (startHour y)"
    using assms by (auto simp: list_all_iff compareStartHour_defined)
  then show ?thesis
    using assms by (simp add: sortSlots_def consistent_all_defined sort_cmp_key)
qed

theorem sortSlots_sort_key_witness:
  "sortSlots [booked_slot ''b'' ''10:00'' ''s2'' True ''y'' 10, booked_slot ''a'' ''09:00'' ''s1'' True ''x'' 9]
   = Some [booked_slot ''a'' ''09:00'' ''s1'' True ''x'' 9, booked_slot ''b'' ''10:00'' ''s2'' True ''y'' 10]"
  using sortSlots_sort_key [of "[booked_slot ''b'' ''10:00'' ''s2'' True ''y'' 10,
                                 booked_slot ''a'' ''09:00'' ''s1'' True ''x'' 9]"]
  by (simp add: booked_slot_def)

text \<open>
  C11. The card order is fixed exactly when every slot of the court has a start
  hour. A single slot without one (an available slot of the data) makes the
  comparator return \<open>NaN\<close>, already when it is compared with itself, so the
  comparator is not consistent and the order is implementation-defined.
\<close>

theorem sortSlots_None_iff: "sortSlots xs = None \<longleftrightarrow> (\<exists>s\<in>set xs. startHour s = None)"
proof
  assume "sortSlots xs = None"
  then have "\<not> consistent_comparator compareStartHour xs" by (auto simp: sortSlots_def)
  moreover have "(\<forall>s\<in>set xs. startHour s \<noteq> None) \<Longrightarrow> consistent_comparator compareStartHour xs"
    using consistent_all_defined [of xs] by (simp add: list_all_iff)
  ultimately show "\<exists>s\<in>set xs. startHour s = None" by (rule contrapos_np) simp
next
  assume "\<exists>s\<in>set xs. startHour s = None"
  then show "sortSlots xs = None" using sortSlots_undefined by blast
qed

theorem sortSlots_None_iff_witness:
  "sortSlots (time_slots (mockData ! 0)) = None \<and> time_slots (mockData ! 0) \<noteq> []"
proof -
  have "\<exists>s\<in>set (time_slots (mockData ! 0)). startHour s = None"
    unfolding mock_court1 by (simp add: available_slot_def)
  then show ?thesis using sortSlots_None_iff [of "time_slots (mockData ! 0)"] by (simp add: mock_court1)
qed

subsection \<open>The analysis button\<close>

lemma mock_slots_no_button:
  assumes "c \<in> set mockData" "sl \<in> set (time_slots c)"
  shows "\<not> showAnalyzeButton sl"
proof -
  have "sl \<in> set (concat (map time_slots mockData))" using assms by auto
  then show ?thesis unfolding mock_slots
    by (auto simp: showAnalyzeButton_def booked_slot_def available_slot_def)
qed

text \<open>
  C15. An expanded card shows at most one of its three footers (the button, the
  "unavailable" note, the "upcoming" note), and a collapsed card none.
\<close>

theorem card_footer_at_most_one: "length (card_footer s e) \<le> 1 \<and> card_footer s False = []"
  by (simp add: card_footer_def showAnalyzeButton_def)

end
