(* ===== verification/Backend.thy ===== *)
theory Backend
  imports Prelude
begin

text \<open>
  The transport to the analysis service, as \<open>handleAnalyzeBooking\<close> in
  \<open>src/src/AdminDashboard.js\<close> uses it inline through axios: the two requests
  (\<open>POST /analyze_booking/{id}\<close>, line 102, and \<open>GET /analysis_results/{id}\<close>,
  line 107, under \<open>API_BASE_URL\<close>, line 16), the outcome of a request (a response
  body, or the error axios rejects with), the normalisation of an error to the
  message the dashboard shows (line 113) and the text of the toast after a successful
  trigger (line 103).
\<close>

subsection \<open>Requests\<close>

definition API_BASE_URL :: string where
  "API_BASE_URL = ''http://127.0.0.1:5000/api''"

definition analyze_url :: "session_id \<Rightarrow> string" where
  "analyze_url sid = API_BASE_URL @ ''/analyze_booking/'' @ sid"

definition results_url :: "session_id \<Rightarrow> string" where
  "results_url sid = API_BASE_URL @ ''/analysis_results/'' @ sid"

text \<open>The requests the dashboard issues, in the order it issues them.\<close>

datatype request = Post string | Get string

subsection \<open>Responses and errors\<close>

text \<open>
  The body of the trigger's response (\<open>{message}\<close>), and of the results'
  response (\<open>{total_shots, heatmap_data?, video_dimensions?}\<close>, spec \<section>6).
  JSON numbers are integers here; the dashboard only displays them.
\<close>

record trigger_data =
  message :: "string option"

record position =
  pos_x :: int
  pos_y :: int
  pos_conf :: int

record dimensions =
  width :: int
  height :: int

record analysis_data =
  total_shots :: int
  heatmap_data :: "position list option"
  video_dimensions :: "dimensions option"

text \<open>
  axios rejects with an error object: \<open>err.response\<close> is present when the server
  answered with a non-2xx status, and then \<open>err.response.data.error\<close> may carry the
  service's message; \<open>err.message\<close> is axios's own text.
\<close>

record http_response =
  resp_status :: nat
  resp_error :: "string option"

record axios_error =
  response :: "http_response option"
  err_message :: string

datatype 'a http = Http_ok 'a | Http_error axios_error

subsection \<open>Normalising outcomes to text\<close>

text \<open>
  \<open>err.response?.data?.error || err.message || "An unknown error occurred during
  analysis."\<close>: optional chaining yields \<open>undefined\<close> when the response is absent.
\<close>

definition unknown_error :: string where
  "unknown_error = ''An unknown error occurred during analysis.''"

definition errorMessage :: "axios_error \<Rightarrow> string" where
  "errorMessage err =
     js_or (case response err of None \<Rightarrow> None | Some r \<Rightarrow> resp_error r)
           (js_or (Some (err_message err)) unknown_error)"

definition trigger_toast :: "trigger_data \<Rightarrow> string" where
  "trigger_toast d = js_or (message d) ''Analysis triggered successfully.''"

subsection \<open>Properties of the transport shim\<close>

lemma errorMessage_nonempty: "errorMessage err \<noteq> []"
  by (simp add: errorMessage_def js_or_nonempty unknown_error_def)

text \<open>
  C7. Error normalisation always yields a non-empty message, and takes the first
  usable text in this order. First the service's own message, when a response is
  present and carries a non-empty \<open>error\<close>. Otherwise axios's
  \<open>err.message\<close> when non-empty, whether or not a response is present.
  Otherwise the fixed fallback text.
\<close>

theorem errorMessage_normalises:
  "errorMessage err \<noteq> [] \<and>
   (response err = Some r \<longrightarrow> resp_error r = Some m \<longrightarrow> m \<noteq> [] \<longrightarrow> errorMessage err = m) \<and>
   (\<not> truthy (case response err of None \<Rightarrow> None | Some r \<Rightarrow> resp_error r) \<longrightarrow>
      errorMessage err = (if err_message err \<noteq> [] then err_message err
                          else ''An unknown error occurred during analysis.''))"
  by (simp add: errorMessage_nonempty) (simp add: errorMessage_def js_or_def unknown_error_def)

theorem errorMessage_normalises_witness:
  "errorMessage \<lparr>response = Some \<lparr>resp_status = 503, resp_error = Some ''capacity exceeded''\<rparr>,
                 err_message = ''Request failed with status code 503''\<rparr> = ''capacity exceeded'' \<and>
   errorMessage \<lparr>response = Some \<lparr>resp_status = 500, resp_error = None\<rparr>,
                 err_message = ''Request failed with status code 500''\<rparr> = ''Request failed with status code 500''"
proof -
  have "errorMessage \<lparr>response = Some \<lparr>resp_status = 503, resp_error = Some ''capacity exceeded''\<rparr>,
                      err_message = ''Request failed with status code 503''\<rparr> = ''capacity exceeded''"
    using errorMessage_normalises
      [of "\<lparr>response = Some \<lparr>resp_status = 503, resp_error = Some ''capacity exceeded''\<rparr>,
            err_message = ''Request failed with status code 503''\<rparr>"
          "\<lparr>resp_status = 503, resp_error = Some ''capacity exceeded''\<rparr>" "''capacity exceeded''"]
    by simp
  moreover have "errorMessage \<lparr>response = Some \<lparr>resp_status = 500, resp_error = None\<rparr>,
                      err_message = ''Request failed with status code 500''\<rparr> = ''Request failed with status code 500''"
    using errorMessage_normalises
      [of "\<lparr>response = Some \<lparr>resp_status = 500, resp_error = None\<rparr>,
            err_message = ''Request failed with status code 500''\<rparr>"]
    by simp
  ultimately show ?thesis ..
qed

text \<open>
  C17. The request URLs identify the session and the endpoint: distinct sessions
  never share a trigger or a results URL, and a trigger URL is never a results URL.
\<close>

theorem urls_distinguish_sessions:
  "(analyze_url a = analyze_url b \<longleftrightarrow> a = b) \<and> (results_url a = results_url b \<longleftrightarrow> a = b) \<and>
   analyze_url a \<noteq> results_url b"
  by (simp add: analyze_url_def results_url_def)

end
