(* ===== verification/Workflow.thy ===== *)
theory Workflow
  imports Courts Backend
begin

text \<open>
  The state of the \<open>AdminDashboard\<close> component (the \<open>useState\<close> hooks of
  \<open>src/src/AdminDashboard.js\<close>, lines 46--56) and its event handlers, with the
  analysis workflow \<open>handleAnalyzeBooking\<close> (lines 79--120) split at its two
  \<open>await\<close>s: the synchronous prefix that runs on the click, the continuation that
  runs when the trigger request settles, and the one that runs when the results
  request settles. The suspended continuations are the list \<open>pending\<close> of
  pipelines; the environment (the network) chooses which one settles next and with
  which outcome, so any interleaving of several sessions is a sequence of events.
  The toasts shown and the requests sent are logged in the state, as outputs.

  React applies a component's state updates before the next discrete event is
  handled, so each event reads the state the previous events left; the
  continuations read no state variable (they use \<open>slot.session_id\<close> and functional
  updates), so nothing stale is read across an \<open>await\<close>.
\<close>

subsection \<open>State\<close>

datatype toast = Toast_success string | Toast_error string | Toast_plain string

datatype stage = Awaiting_trigger | Awaiting_results

datatype pipeline = Pipeline (p_sid: session_id) (p_stage: stage)

record dash =
  courts :: "court list"
  selectedCourtKey :: string
  expandedSlotIndex :: "nat option"
  analysisDrawerOpen :: bool
  analysisSessionId :: "session_id option"
  analysisLoading :: bool
  analysisData :: "analysis_data option"
  analysisError :: "string option"
  isAnalyzing :: "session_id \<rightharpoonup> bool"
  pending :: "pipeline list"
  toasts :: "toast list"
  requests :: "request list"

definition dashboard_init :: dash where
  "dashboard_init =
     \<lparr>courts = [], selectedCourtKey = ''Court 1'', expandedSlotIndex = None,
      analysisDrawerOpen = False, analysisSessionId = None, analysisLoading = False,
      analysisData = None, analysisError = None, isAnalyzing = Map.empty,
      pending = [], toasts = [], requests = []\<rparr>"

subsection \<open>Loading the courts\<close>

text \<open>
  \<open>fetchCourts\<close> (lines 59--70) loads the mock data; its \<open>catch\<close> branch is
  unreachable, since \<open>setCourts\<close> does not throw. The effect of lines 72--75 runs it
  after the first render and whenever the selected court changes.
\<close>

definition fetchCourts :: "dash \<Rightarrow> dash" where
  "fetchCourts s =
     s\<lparr>courts := mockData, toasts := toasts s @ [Toast_success ''Court data loaded successfully'']\<rparr>"

definition dashboard_mounted :: dash where
  "dashboard_mounted = fetchCourts dashboard_init"

definition selectCourt :: "string \<Rightarrow> dash \<Rightarrow> dash" where
  "selectCourt key s =
     (if key = selectedCourtKey s then s else fetchCourts (s\<lparr>selectedCourtKey := key\<rparr>))"

subsection \<open>The analysis workflow\<close>

text \<open>The click: the two guards, the state reset, and the trigger request sent.\<close>

definition handleAnalyzeBooking :: "slot \<Rightarrow> dash \<Rightarrow> dash" where
  "handleAnalyzeBooking slot s =
     (if \<not> truthy (session_id slot)
      then s\<lparr>toasts := toasts s @ [Toast_error ''Session ID is missing for this booking.'']\<rparr>
      else let sid = the (session_id slot) in
        if isAnalyzing s sid = Some True
        then s\<lparr>toasts := toasts s @ [Toast_plain ''Analysis is already in progress for this session.'']\<rparr>
        else s\<lparr>analysisSessionId := Some sid, analysisDrawerOpen := True,
               analysisLoading := True, analysisData := None, analysisError := None,
               isAnalyzing := (isAnalyzing s)(sid \<mapsto> True),
               requests := requests s @ [Post (analyze_url sid)],
               pending := pending s @ [Pipeline sid Awaiting_trigger]\<rparr>)"

text \<open>The \<open>catch\<close> block (lines 111--115) and the \<open>finally\<close> block (lines 116--119).\<close>

definition analyzeCatch :: "axios_error \<Rightarrow> dash \<Rightarrow> dash" where
  "analyzeCatch err s =
     s\<lparr>analysisError := Some (errorMessage err),
       toasts := toasts s @ [Toast_error (''Analysis failed: '' @ errorMessage err)]\<rparr>"

definition analyzeFinally :: "nat \<Rightarrow> session_id \<Rightarrow> dash \<Rightarrow> dash" where
  "analyzeFinally i sid s =
     s\<lparr>analysisLoading := False, isAnalyzing := (isAnalyzing s)(sid \<mapsto> False),
       pending := remove_nth i (pending s)\<rparr>"

text \<open>
  The trigger request of the i-th pending pipeline settles (lines 102--107): on
  success the toast and the results request; on failure the catch and finally
  blocks, and the results request is never sent.
\<close>

definition triggerSettled :: "nat \<Rightarrow> trigger_data http \<Rightarrow> dash \<Rightarrow> dash" where
  "triggerSettled i r s =
     (if i < length (pending s) \<and> p_stage (pending s ! i) = Awaiting_trigger
      then let sid = p_sid (pending s ! i) in
        (case r of
          Http_ok d \<Rightarrow>
            s\<lparr>toasts := toasts s @ [Toast_success (trigger_toast d)],
              requests := requests s @ [Get (results_url sid)],
              pending := (pending s)[i := Pipeline sid Awaiting_results]\<rparr>
        | Http_error err \<Rightarrow> analyzeFinally i sid (analyzeCatch err s))
      else s)"

text \<open>The results request of the i-th pending pipeline settles (lines 107--119).\<close>

definition resultsSettled :: "nat \<Rightarrow> analysis_data http \<Rightarrow> dash \<Rightarrow> dash" where
  "resultsSettled i r s =
     (if i < length (pending s) \<and> p_stage (pending s ! i) = Awaiting_results
      then let sid = p_sid (pending s ! i) in
        (case r of
          Http_ok d \<Rightarrow> analyzeFinally i sid (s\<lparr>analysisData := Some d\<rparr>)
        | Http_error err \<Rightarrow> analyzeFinally i sid (analyzeCatch err s))
      else s)"

subsection \<open>Cards and the drawer\<close>

text \<open>
  \<open>handleCardClick\<close> (lines 123--137): toggle the expanded card; collapsing the
  card of the session the drawer shows closes the drawer (JavaScript \<open>===\<close>, so
  \<open>null === null\<close> holds as well).
\<close>

definition handleCardClick :: "nat \<Rightarrow> slot \<Rightarrow> dash \<Rightarrow> dash" where
  "handleCardClick index slot s =
     (let newExpandedIndex = (if Some index = expandedSlotIndex s then None else Some index);
          s' = s\<lparr>expandedSlotIndex := newExpandedIndex\<rparr>
      in if newExpandedIndex = None \<and> analysisSessionId s = session_id slot
         then s'\<lparr>analysisDrawerOpen := False, analysisSessionId := None\<rparr>
         else s')"

text \<open>\<open>handleDrawerClose\<close> (lines 139--145): the display is cleared, the workflow flags are not.\<close>

definition handleDrawerClose :: "dash \<Rightarrow> dash" where
  "handleDrawerClose s =
     s\<lparr>analysisDrawerOpen := False, analysisSessionId := None,
       analysisData := None, analysisError := None\<rparr>"

subsection \<open>Events, runs and reachable states\<close>

datatype event =
    Select_court string
  | Card_click nat slot
  | Analyze slot
  | Trigger_settled nat "trigger_data http"
  | Results_settled nat "analysis_data http"
  | Drawer_close

fun dash_step :: "dash \<Rightarrow> event \<Rightarrow> dash" where
  "dash_step s (Select_court k) = selectCourt k s"
| "dash_step s (Card_click i slot) = handleCardClick i slot s"
| "dash_step s (Analyze slot) = handleAnalyzeBooking slot s"
| "dash_step s (Trigger_settled i r) = triggerSettled i r s"
| "dash_step s (Results_settled i r) = resultsSettled i r s"
| "dash_step s Drawer_close = handleDrawerClose s"

definition run :: "dash \<Rightarrow> event list \<Rightarrow> dash" where
  "run s es = foldl dash_step s es"

inductive reachable :: "dash \<Rightarrow> bool" where
  mounted: "reachable dashboard_mounted"
| step: "reachable s \<Longrightarrow> reachable (dash_step s e)"

declare fetchCourts_def [handler_defs] selectCourt_def [handler_defs]
  handleAnalyzeBooking_def [handler_defs] analyzeCatch_def [handler_defs]
  analyzeFinally_def [handler_defs] triggerSettled_def [handler_defs]
  resultsSettled_def [handler_defs] handleCardClick_def [handler_defs]
  handleDrawerClose_def [handler_defs]

subsection \<open>A sample session\<close>

text \<open>The first booked slot of the mock data, and a results payload as spec \<section>8 has it.\<close>

abbreviation demo_slot :: slot where
  "demo_slot \<equiv> booked_slot ''slot_c1_9am'' ''09:00'' ''sess_xyz_mock_court1_9am'' True ''John Doe'' 9"

abbreviation demo_result :: analysis_data where
  "demo_result \<equiv> \<lparr>total_shots = 5, heatmap_data = Some [],
                    video_dimensions = Some \<lparr>width = 640, height = 360\<rparr>\<rparr>"

subsection \<open>The workflow invariant\<close>

text \<open>
  Three facts the handlers keep together: no two pending pipelines belong to the
  same session; the \<open>isAnalyzing\<close> flag of a session is \<open>true\<close> exactly while
  one of its pipelines is pending; the spinner is on only while some pipeline is
  pending. The proof has one preservation lemma per handler and a rule induction
  over the reachable states.
\<close>

definition pipelines_distinct :: "dash \<Rightarrow> bool" where
  "pipelines_distinct s \<longleftrightarrow> distinct (map p_sid (pending s))"

definition flags_agree :: "dash \<Rightarrow> bool" where
  "flags_agree s \<longleftrightarrow> (\<forall>sid. isAnalyzing s sid = Some True \<longleftrightarrow> sid \<in> set (map p_sid (pending s)))"

definition loading_pending :: "dash \<Rightarrow> bool" where
  "loading_pending s \<longleftrightarrow> (analysisLoading s \<longrightarrow> pending s \<noteq> [])"

definition dash_inv :: "dash \<Rightarrow> bool" where
  "dash_inv s \<longleftrightarrow> pipelines_distinct s \<and> flags_agree s \<and> loading_pending s"

lemmas dash_inv_unfold = dash_inv_def pipelines_distinct_def flags_agree_def loading_pending_def

lemma dash_inv_frame:
  "map p_sid (pending t) = map p_sid (pending s) \<Longrightarrow> isAnalyzing t = isAnalyzing s \<Longrightarrow> analysisLoading t = analysisLoading s \<Longrightarrow>
   dash_inv t = dash_inv s"
  unfolding dash_inv_def pipelines_distinct_def flags_agree_def loading_pending_def
  by (metis Nil_is_map_conv)

lemma dash_inv_init: "dash_inv dashboard_mounted"
  by (simp add: dash_inv_def pipelines_distinct_def flags_agree_def loading_pending_def
                dashboard_mounted_def dashboard_init_def fetchCourts_def)

lemma analyzeFinally_inv:
  assumes inv: "dash_inv s" and i: "i < length (pending s)" and sid: "sid = p_sid (pending s ! i)"
  shows "dash_inv (analyzeFinally i sid s)"
proof -
  let ?xs = "map p_sid (pending s)"
  have d: "distinct ?xs" using inv by (simp add: dash_inv_def pipelines_distinct_def)
  have i': "i < length ?xs" and sid': "?xs ! i = sid" using i sid by simp_all
  have set_new: "set (remove_nth i ?xs) = set ?xs - {sid}"
    using set_remove_nth_distinct [OF d i'] sid' by simp
  have "distinct (remove_nth i ?xs)" using d by (rule distinct_remove_nth)
  moreover have "flags_agree (analyzeFinally i sid s)"
    using inv set_new by (auto simp: flags_agree_def dash_inv_def analyzeFinally_def pending_simps)
  ultimately show ?thesis
    by (simp add: dash_inv_def pipelines_distinct_def loading_pending_def analyzeFinally_def pending_simps)
qed

lemma analyzeCatch_frame:
  "pending (analyzeCatch err s) = pending s \<and> isAnalyzing (analyzeCatch err s) = isAnalyzing s \<and>
   analysisLoading (analyzeCatch err s) = analysisLoading s"
  by (simp add: analyzeCatch_def)

lemma analyzeFinally_catch_inv:
  "dash_inv s \<Longrightarrow> i < length (pending s) \<Longrightarrow> dash_inv (analyzeFinally i (p_sid (pending s ! i)) (analyzeCatch err s))"
  using analyzeFinally_inv [of "analyzeCatch err s" i] analyzeCatch_frame dash_inv_frame
  by (metis (no_types, lifting))

lemma handleAnalyzeBooking_inv:
  assumes inv: "dash_inv s"
  shows "dash_inv (handleAnalyzeBooking slot s)"
proof (cases "truthy (session_id slot) \<and> isAnalyzing s (the (session_id slot)) \<noteq> Some True")
  case True
  let ?sid = "the (session_id slot)"
  have "?sid \<notin> set (map p_sid (pending s))"
    using inv True by (simp add: dash_inv_def flags_agree_def)
  with inv True show ?thesis
    by (auto simp: handleAnalyzeBooking_def dash_inv_def pipelines_distinct_def flags_agree_def loading_pending_def Let_def)
next
  case False
  then show ?thesis
    using inv by (simp add: handleAnalyzeBooking_def Let_def dash_inv_unfold)
qed

lemma triggerSettled_inv:
  assumes inv: "dash_inv s"
  shows "dash_inv (triggerSettled i r s)"
proof (cases "i < length (pending s) \<and> p_stage (pending s ! i) = Awaiting_trigger")
  case True
  show ?thesis
  proof (cases r)
    case (Http_ok d)
    let ?t = "s\<lparr>toasts := toasts s @ [Toast_success (trigger_toast d)],
                requests := requests s @ [Get (results_url (p_sid (pending s ! i)))],
                pending := (pending s)[i := Pipeline (p_sid (pending s ! i)) Awaiting_results]\<rparr>"
    have "dash_inv ?t = dash_inv s"
      using True by (intro dash_inv_frame) (simp_all add: map_list_update_same)
    with True Http_ok inv show ?thesis
      by (simp add: triggerSettled_def Let_def)
  next
    case (Http_error err)
    with True inv show ?thesis
      by (simp add: triggerSettled_def analyzeFinally_catch_inv)
  qed
next
  case False
  then have "triggerSettled i r s = s" unfolding triggerSettled_def by (rule if_not_P)
  with inv show ?thesis by simp
qed

lemma resultsSettled_inv:
  assumes inv: "dash_inv s"
  shows "dash_inv (resultsSettled i r s)"
proof (cases "i < length (pending s) \<and> p_stage (pending s ! i) = Awaiting_results")
  case True
  show ?thesis
  proof (cases r)
    case (Http_ok d)
    have "dash_inv (s\<lparr>analysisData := Some d\<rparr>)" using inv by (simp add: dash_inv_unfold)
    then have "dash_inv (analyzeFinally i (p_sid (pending s ! i)) (s\<lparr>analysisData := Some d\<rparr>))"
      using True by (intro analyzeFinally_inv) simp_all
    with True Http_ok show ?thesis by (simp add: resultsSettled_def)
  next
    case (Http_error err)
    with True inv show ?thesis
      by (simp add: resultsSettled_def analyzeFinally_catch_inv)
  qed
next
  case False
  then have "resultsSettled i r s = s" unfolding resultsSettled_def by (rule if_not_P)
  with inv show ?thesis by simp
qed

lemma dash_step_inv: "dash_inv s \<Longrightarrow> dash_inv (dash_step s e)"
proof (cases e)
  case (Analyze slot)
  then show "dash_inv s \<Longrightarrow> ?thesis" by (simp add: handleAnalyzeBooking_inv)
next
  case (Trigger_settled i r)
  then show "dash_inv s \<Longrightarrow> ?thesis" by (simp add: triggerSettled_inv)
next
  case (Results_settled i r)
  then show "dash_inv s \<Longrightarrow> ?thesis" by (simp add: resultsSettled_inv)
qed (simp_all add: selectCourt_def fetchCourts_def handleCardClick_def handleDrawerClose_def Let_def
                  dash_inv_unfold)

lemma reachable_inv: "reachable s \<Longrightarrow> dash_inv s"
proof (induction rule: reachable.induct)
  case mounted
  show ?case by (rule dash_inv_init)
next
  case (step s e)
  from step.IH show ?case by (rule dash_step_inv)
qed

lemma reachable_run: "reachable s \<Longrightarrow> reachable (run s es)"
  by (induction es arbitrary: s) (simp_all add: run_def reachable.step)


subsection \<open>A sample run\<close>

lemma reachable_demo: "reachable (run dashboard_mounted [Analyze demo_slot, Analyze demo_slot])"
  by (rule reachable_run [OF reachable.mounted])

lemma run_demo:
  "run dashboard_mounted [Analyze demo_slot, Analyze demo_slot] =
     \<lparr>courts = mockData, selectedCourtKey = ''Court 1'', expandedSlotIndex = None,
      analysisDrawerOpen = True, analysisSessionId = Some ''sess_xyz_mock_court1_9am'',
      analysisLoading = True, analysisData = None, analysisError = None,
      isAnalyzing = [''sess_xyz_mock_court1_9am'' \<mapsto> True],
      pending = [Pipeline ''sess_xyz_mock_court1_9am'' Awaiting_trigger],
      toasts = [Toast_success ''Court data loaded successfully'',
                Toast_plain ''Analysis is already in progress for this session.''],
      requests = [Post (analyze_url ''sess_xyz_mock_court1_9am'')]\<rparr>"
  by (simp add: run_def handleAnalyzeBooking_def dashboard_mounted_def dashboard_init_def
                fetchCourts_def booked_slot_def Let_def)

subsection \<open>Safety of the workflow\<close>

text \<open>
  C1. In every reachable state each session has at most one analysis pipeline in
  flight: the duplicate-submission guard of \<open>handleAnalyzeBooking\<close> holds under any
  interleaving of clicks and network replies.
\<close>

theorem reachable_one_pipeline_per_session:
  "reachable s \<Longrightarrow> length (filter (\<lambda>p. p_sid p = sid) (pending s)) \<le> 1"
  using reachable_inv distinct_map_filter_length
  by (metis dash_inv_def pipelines_distinct_def)

theorem reachable_one_pipeline_per_session_witness:
  "length (filter (\<lambda>p. p_sid p = ''sess_xyz_mock_court1_9am'')
      (pending (run dashboard_mounted [Analyze demo_slot, Analyze demo_slot]))) \<le> 1"
  by (rule reachable_one_pipeline_per_session [OF reachable_demo])

text \<open>
  C2. In every reachable state \<open>isAnalyzing[id]\<close> is truthy exactly when a pipeline
  of session \<open>id\<close> is pending: the flag map is an exact record of the work in flight.
\<close>

theorem reachable_isAnalyzing_iff_pending:
  "reachable s \<Longrightarrow> isAnalyzing s sid = Some True \<longleftrightarrow> (\<exists>p\<in>set (pending s). p_sid p = sid)"
  using reachable_inv by (auto simp: dash_inv_def flags_agree_def)

theorem reachable_isAnalyzing_iff_pending_witness:
  "isAnalyzing (run dashboard_mounted [Analyze demo_slot, Analyze demo_slot]) ''sess_xyz_mock_court1_9am'' = Some True"
  using reachable_isAnalyzing_iff_pending [OF reachable_demo, of "''sess_xyz_mock_court1_9am''"]
  by (simp add: run_demo)

text \<open>
  C14. In every reachable state the spinner (\<open>analysisLoading\<close>) is on only while
  some pipeline is pending.
\<close>

theorem reachable_loading_has_pending:
  "reachable s \<Longrightarrow> analysisLoading s \<Longrightarrow> pending s \<noteq> []"
  using reachable_inv by (simp add: dash_inv_def loading_pending_def)

theorem reachable_loading_has_pending_witness:
  "pending (run dashboard_mounted [Analyze demo_slot, Analyze demo_slot]) \<noteq> []"
  using reachable_loading_has_pending [OF reachable_demo] by (simp add: run_demo)

subsection \<open>Guards, re-analysis, cards and settling\<close>

text \<open>
  C12. The two guards of \<open>handleAnalyzeBooking\<close> (no session id; analysis already
  in progress for the session) change nothing but show one notice: no flag, no
  request, no display state is touched.
\<close>

theorem handleAnalyzeBooking_guards:
  assumes "\<not> truthy (session_id slot) \<or> isAnalyzing s (the (session_id slot)) = Some True"
  shows "(handleAnalyzeBooking slot s)\<lparr>toasts := toasts s\<rparr> = s \<and>
         length (toasts (handleAnalyzeBooking slot s)) = Suc (length (toasts s))"
  using assms by (auto simp: handleAnalyzeBooking_def Let_def)

theorem handleAnalyzeBooking_guards_witness:
  "(handleAnalyzeBooking (available_slot ''slot_c1_12pm'' ''12:00'') dashboard_mounted)
     \<lparr>toasts := toasts dashboard_mounted\<rparr> = dashboard_mounted"
  using handleAnalyzeBooking_guards [of "available_slot ''slot_c1_12pm'' ''12:00''" dashboard_mounted]
  by (simp add: available_slot_def)

text \<open>
  C13. From any reachable state in which a session has no pipeline in flight (never
  analysed, or its last analysis succeeded or failed), a new request is accepted: it
  starts a pipeline, sends the trigger request, and clears the previous result and
  error from the display.
\<close>

theorem reanalysis_from_quiet:
  assumes "reachable s" "session_id slot = Some sid" "sid \<noteq> []" "\<forall>p\<in>set (pending s). p_sid p \<noteq> sid"
  shows "pending (handleAnalyzeBooking slot s) = pending s @ [Pipeline sid Awaiting_trigger] \<and>
         requests (handleAnalyzeBooking slot s) = requests s @ [Post (analyze_url sid)] \<and>
         analysisData (handleAnalyzeBooking slot s) = None \<and> analysisError (handleAnalyzeBooking slot s) = None \<and>
         analysisSessionId (handleAnalyzeBooking slot s) = Some sid"
proof -
  have "isAnalyzing s sid \<noteq> Some True"
    using reachable_inv [OF assms(1)] assms(4) by (auto simp: dash_inv_def flags_agree_def)
  then show ?thesis using assms(2,3) by (simp add: handleAnalyzeBooking_def)
qed

lemma run_demo_done:
  "run dashboard_mounted [Analyze demo_slot, Trigger_settled 0 (Http_ok \<lparr>message = None\<rparr>),
                          Results_settled 0 (Http_ok demo_result)] =
     \<lparr>courts = mockData, selectedCourtKey = ''Court 1'', expandedSlotIndex = None,
      analysisDrawerOpen = True, analysisSessionId = Some ''sess_xyz_mock_court1_9am'',
      analysisLoading = False, analysisData = Some demo_result, analysisError = None,
      isAnalyzing = [''sess_xyz_mock_court1_9am'' \<mapsto> False], pending = [],
      toasts = [Toast_success ''Court data loaded successfully'',
                Toast_success ''Analysis triggered successfully.''],
      requests = [Post (analyze_url ''sess_xyz_mock_court1_9am''),
                  Get (results_url ''sess_xyz_mock_court1_9am'')]\<rparr>"
  by (simp add: run_def handleAnalyzeBooking_def triggerSettled_def resultsSettled_def
                analyzeFinally_def trigger_toast_def dashboard_mounted_def dashboard_init_def
                fetchCourts_def booked_slot_def Let_def)

theorem reanalysis_from_quiet_witness:
  "analysisData (handleAnalyzeBooking demo_slot
     (run dashboard_mounted [Analyze demo_slot, Trigger_settled 0 (Http_ok \<lparr>message = None\<rparr>),
                             Results_settled 0 (Http_ok demo_result)])) = None"
  using reanalysis_from_quiet [OF reachable_run [OF reachable.mounted, of
      "[Analyze demo_slot, Trigger_settled 0 (Http_ok \<lparr>message = None\<rparr>), Results_settled 0 (Http_ok demo_result)]"],
      of demo_slot "''sess_xyz_mock_court1_9am''"]
  unfolding run_demo_done by (simp add: booked_slot_def)

text \<open>
  C16. Collapsing the expanded card closes the drawer exactly when the drawer shows
  that card's session, and leaves the workflow (pipelines, flags, spinner) as it was.
\<close>

theorem card_collapse:
  assumes "expandedSlotIndex s = Some i"
  shows "expandedSlotIndex (handleCardClick i slot s) = None \<and>
         analysisDrawerOpen (handleCardClick i slot s) = (analysisDrawerOpen s \<and> analysisSessionId s \<noteq> session_id slot) \<and>
         pending (handleCardClick i slot s) = pending s \<and> isAnalyzing (handleCardClick i slot s) = isAnalyzing s \<and>
         analysisLoading (handleCardClick i slot s) = analysisLoading s"
  using assms by (simp add: handleCardClick_def Let_def)

theorem card_collapse_witness:
  "\<not> analysisDrawerOpen (handleCardClick 0 demo_slot
       ((run dashboard_mounted [Analyze demo_slot])\<lparr>expandedSlotIndex := Some 0\<rparr>))"
proof -
  have "analysisSessionId (run dashboard_mounted [Analyze demo_slot]) = Some ''sess_xyz_mock_court1_9am''"
    by (simp add: run_def handleAnalyzeBooking_def dashboard_mounted_def dashboard_init_def
                  fetchCourts_def booked_slot_def Let_def)
  then show ?thesis
    using card_collapse [of "(run dashboard_mounted [Analyze demo_slot])\<lparr>expandedSlotIndex := Some 0\<rparr>" 0 demo_slot]
    by (simp add: booked_slot_def)
qed

lemma sid_gone_after_finally:
  assumes "dash_inv s" "i < length (pending s)"
  shows "\<forall>p\<in>set (pending (analyzeFinally i (p_sid (pending s ! i)) s)). p_sid p \<noteq> p_sid (pending s ! i)"
proof -
  have "find (\<lambda>p. p_sid p = p_sid (pending s ! i)) (remove_nth i (pending s)) = None"
    using assms by (intro find_remove_unique) (simp_all add: dash_inv_def pipelines_distinct_def)
  then show ?thesis by (auto simp: analyzeFinally_def find_None_iff)
qed

lemma resultsSettled_other:
  assumes "\<forall>p\<in>set (pending s). p_sid p \<noteq> sid"
  shows "(\<forall>p\<in>set (pending (resultsSettled i r s)). p_sid p \<noteq> sid) \<and>
         isAnalyzing (resultsSettled i r s) sid = isAnalyzing s sid"
proof (cases "i < length (pending s) \<and> p_stage (pending s ! i) = Awaiting_results")
  case True
  then have "p_sid (pending s ! i) \<noteq> sid" using assms nth_mem by blast
  with True assms show ?thesis
    using set_remove_nth_subset [of i "pending s"]
    by (auto simp: resultsSettled_def analyzeFinally_def analyzeCatch_def Let_def split: http.split)
next
  case False
  then have "resultsSettled i r s = s" unfolding resultsSettled_def by (rule if_not_P)
  with assms show ?thesis by simp
qed


lemma finally_own:
  assumes "dash_inv s'" "i < length (pending s')"
  shows "(\<forall>p\<in>set (pending (analyzeFinally i (p_sid (pending s' ! i)) s')). p_sid p \<noteq> p_sid (pending s' ! i)) \<and>
         isAnalyzing (analyzeFinally i (p_sid (pending s' ! i)) s') (p_sid (pending s' ! i)) = Some False"
  using sid_gone_after_finally [OF assms] by (simp add: analyzeFinally_def)

lemma resultsSettled_own:
  assumes inv: "dash_inv s" and i: "i < length (pending s)" and st: "p_stage (pending s ! i) = Awaiting_results"
  shows "(\<forall>p\<in>set (pending (resultsSettled i r s)). p_sid p \<noteq> p_sid (pending s ! i)) \<and>
         isAnalyzing (resultsSettled i r s) (p_sid (pending s ! i)) = Some False"
proof -
  let ?s' = "case r of Http_ok d \<Rightarrow> s\<lparr>analysisData := Some d\<rparr> | Http_error err \<Rightarrow> analyzeCatch err s"
  have p: "pending ?s' = pending s" by (simp add: analyzeCatch_def split: http.split)
  have "dash_inv ?s'" using inv by (simp add: analyzeCatch_def dash_inv_unfold split: http.split)
  moreover have "resultsSettled i r s = analyzeFinally i (p_sid (pending ?s' ! i)) ?s'"
    using i st p by (simp add: resultsSettled_def split: http.split)
  ultimately show ?thesis using finally_own [of ?s' i] i p by simp
qed

text \<open>
  C18. No pipeline is stuck: whatever the replies, once the network answers the
  trigger and the results request of a pending pipeline (two settle events at its
  position), the session has no pipeline left and its \<open>isAnalyzing\<close> flag is
  \<open>false\<close>, so the button is usable again.
\<close>

theorem two_replies_settle:
  assumes "reachable s" "i < length (pending s)"
  shows "let sid = p_sid (pending s ! i); t = run s [Trigger_settled i rt, Results_settled i rr] in
         (\<forall>p\<in>set (pending t). p_sid p \<noteq> sid) \<and> isAnalyzing t sid = Some False"
proof -
  have inv: "dash_inv s" using assms(1) by (rule reachable_inv)
  let ?sid = "p_sid (pending s ! i)"
  let ?s1 = "triggerSettled i rt s"
  have inv1: "dash_inv ?s1" using inv by (rule triggerSettled_inv)
  have "(\<forall>p\<in>set (pending (resultsSettled i rr ?s1)). p_sid p \<noteq> ?sid) \<and>
        isAnalyzing (resultsSettled i rr ?s1) ?sid = Some False"
  proof (cases "p_stage (pending s ! i)")
    case Awaiting_trigger
    show ?thesis
    proof (cases rt)
      case (Http_ok d)
      then have "i < length (pending ?s1)" "pending ?s1 ! i = Pipeline ?sid Awaiting_results"
        using assms(2) Awaiting_trigger by (simp_all add: triggerSettled_def Let_def)
      then show ?thesis using resultsSettled_own [OF inv1, of i] by simp
    next
      case (Http_error err)
      have "dash_inv (analyzeCatch err s)" using inv by (simp add: analyzeCatch_def dash_inv_unfold)
      then have "(\<forall>p\<in>set (pending ?s1). p_sid p \<noteq> ?sid) \<and> isAnalyzing ?s1 ?sid = Some False"
        using finally_own [of "analyzeCatch err s" i] assms(2) Awaiting_trigger Http_error
        by (simp add: triggerSettled_def analyzeCatch_def)
      then show ?thesis using resultsSettled_other [of ?s1 ?sid i rr] by simp
    qed
  next
    case Awaiting_results
    then have "?s1 = s" unfolding triggerSettled_def by simp
    then show ?thesis using resultsSettled_own [OF inv assms(2) Awaiting_results] by simp
  qed
  then show ?thesis by (simp add: run_def)
qed
theorem two_replies_settle_witness:
  "isAnalyzing (run (run dashboard_mounted [Analyze demo_slot, Analyze demo_slot])
      [Trigger_settled 0 (Http_ok \<lparr>message = None\<rparr>), Results_settled 0 (Http_ok demo_result)])
      ''sess_xyz_mock_court1_9am'' = Some False"
  using two_replies_settle [OF reachable_demo, of 0 "Http_ok \<lparr>message = None\<rparr>" "Http_ok demo_result"]
  by (simp add: run_demo Let_def)

end
