(* ===== verification/Drawer.thy ===== *)
theory Drawer
  imports Workflow
begin

text \<open>
  What the analysis drawer displays (\<open>src/src/AdminDashboard.js\<close>, lines 238--287):
  the spinner while \<open>analysisLoading\<close>, else the failure text while
  \<open>analysisError\<close> is truthy, else the results of \<open>analysisData\<close> titled with
  \<open>analysisSessionId\<close>, else the prompt. The heatmap is drawn when both
  \<open>heatmap_data\<close> and \<open>video_dimensions\<close> are present (an empty array is truthy
  in JavaScript). Then the display facts of the workflow: what a failure and a
  success leave on screen, and what closing the drawer keeps.
\<close>

datatype drawer_view =
    Drawer_loading
  | Drawer_failed string
  | Drawer_results "session_id option" int bool
  | Drawer_prompt

definition drawer_content :: "dash \<Rightarrow> drawer_view" where
  "drawer_content s =
     (if analysisLoading s then Drawer_loading
      else if truthy (analysisError s) then Drawer_failed (the (analysisError s))
      else case analysisData s of
        Some d \<Rightarrow> Drawer_results (analysisSessionId s) (total_shots d)
                    (heatmap_data d \<noteq> None \<and> video_dimensions d \<noteq> None)
      | None \<Rightarrow> Drawer_prompt)"

subsection \<open>The two outcomes on screen\<close>

text \<open>
  C19. Whenever a request fails (trigger or results), the drawer shows the failure
  with the normalised message: the message is never empty, so the \<open>analysisError\<close>
  test of the markup always takes the failure branch.
\<close>

theorem drawer_after_failure:
  "drawer_content (analyzeFinally i sid (analyzeCatch err s)) = Drawer_failed (errorMessage err)"
  by (simp add: drawer_content_def analyzeFinally_def analyzeCatch_def errorMessage_nonempty)

subsection \<open>Closing the drawer\<close>

text \<open>
  C9. Closing the drawer hides it and clears what it displays, and changes nothing
  of the workflow: the pipelines in flight, the \<open>isAnalyzing\<close> flags, the
  spinner flag and the requests sent are those before the call.
\<close>

theorem drawer_close_keeps_workflow:
  "pending (handleDrawerClose s) = pending s \<and> isAnalyzing (handleDrawerClose s) = isAnalyzing s \<and>
   analysisLoading (handleDrawerClose s) = analysisLoading s \<and> requests (handleDrawerClose s) = requests s \<and>
   \<not> analysisDrawerOpen (handleDrawerClose s) \<and>
   drawer_content (handleDrawerClose s) = (if analysisLoading s then Drawer_loading else Drawer_prompt)"
  by (simp add: handleDrawerClose_def drawer_content_def)

subsection \<open>Whose results the drawer shows\<close>

text \<open>
  C31. A completed fetch is displayed under whatever session the drawer holds, and
  only if no error is on display. In any state, when the results request of any
  pending pipeline succeeds, the results are stored. The drawer then shows the
  error already in \<open>analysisError\<close> if there is one, which the success does
  not clear. Otherwise it shows the results titled with \<open>analysisSessionId\<close>,
  whichever session the pipeline belongs to.
\<close>

theorem results_shown_under_drawer_session:
  assumes "i < length (pending s)" "pending s ! i = Pipeline a Awaiting_results"
  shows "analysisData (resultsSettled i (Http_ok d) s) = Some d \<and>
         drawer_content (resultsSettled i (Http_ok d) s) =
           (if truthy (analysisError s) then Drawer_failed (the (analysisError s))
            else Drawer_results (analysisSessionId s) (total_shots d)
                   (heatmap_data d \<noteq> None \<and> video_dimensions d \<noteq> None))"
  using assms by (simp add: resultsSettled_def analyzeFinally_def drawer_content_def)

theorem results_shown_under_drawer_session_witness:
  "drawer_content (resultsSettled 0 (Http_ok demo_result)
      (dashboard_mounted\<lparr>analysisSessionId := Some ''sess_abc_mock_court1_10am'',
                          pending := [Pipeline ''sess_xyz_mock_court1_9am'' Awaiting_results]\<rparr>))
   = Drawer_results (Some ''sess_abc_mock_court1_10am'') 5 True"
  using results_shown_under_drawer_session
      [of 0 "dashboard_mounted\<lparr>analysisSessionId := Some ''sess_abc_mock_court1_10am'',
                                 pending := [Pipeline ''sess_xyz_mock_court1_9am'' Awaiting_results]\<rparr>"
          "''sess_xyz_mock_court1_9am''" demo_result]
  by (simp add: dashboard_mounted_def dashboard_init_def fetchCourts_def)

end
