(* ===== verification/JsText.thy ===== *)
theory JsText
  imports Prelude
begin

text \<open>
  The text of a number as the dashboard prints it (\<open>src/src/AdminDashboard.js\<close>):
  a template literal \<open>${slot.startHour}:00\<close> (line 194) converts with
  ECMAScript's Number::toString, and \<open>slot.cost.toFixed(2)\<close> (line 199) appends
  two decimals. These are definitions of the JavaScript runtime the page calls, not
  code of the repository; \<open>Page\<close> uses them to state what a card prints. The
  numbers of the court data are integers, and JSON integers that a double holds
  exactly are safe integers (\<open>|n| < 2^53 < 10^21\<close>). On them
  Number::toString is the plain decimal text with a leading \<open>-\<close> for negative
  values, and \<open>toFixed(2)\<close> is that text followed by \<open>.00\<close>. Outside the
  safe range the model still prints every digit, where JavaScript would round or
  switch to exponent notation; the page's data never reaches that range. The
  printer \<open>decimal\<close> recurses on \<open>n div 10\<close>, so it is a \<open>function\<close> with
  a termination proof by a measure.
\<close>

definition digit_char :: "nat \<Rightarrow> char" where
  "digit_char d = ''0123456789'' ! d"

function decimal :: "nat \<Rightarrow> string" where
  "decimal n = (if n < 10 then [digit_char n] else decimal (n div 10) @ [digit_char (n mod 10)])"
  by pat_completeness auto
termination by (relation "measure id") auto

definition number_text :: "int \<Rightarrow> string" where
  "number_text i = (if i < 0 then CHR ''-'' # decimal (nat (- i)) else decimal (nat i))"

definition toFixed2 :: "int \<Rightarrow> string" where
  "toFixed2 i = number_text i @ ''.00''"

declare decimal.simps [simp del]

end
