(* ===== verification/Page.thy ===== *)
theory Page
  imports Drawer JsText
begin

text \<open>
  The rendered page (\<open>src/src/AdminDashboard.js\<close>, the \<open>return\<close> of lines
  151--289) as data: the tab bar (one tab per court, lines 155--159), the body
  (the cards of the selected court in the order of the \<open>sort\<close>, or the "no
  data" message, lines 164--235) and the drawer (lines 238--287, \<open>Drawer\<close>).
  A card (lines 168--228) shows its title (\<open>slot.time\<close>, or a template of the
  start hour), its status, the booking lines for status \<open>"Booked"\<close>, a border
  when expanded, the analysis button with its label and loading flag, and the
  footer notes. Where the card order is implementation-defined (\<open>sortSlots\<close>
  returns \<open>None\<close>) the body says so (\<open>Court_cards None\<close>).
\<close>

subsection \<open>Text of a card\<close>

text \<open>
  Interpolating \<open>undefined\<close> gives \<open>"undefined"\<close>, and \<open>undefined + 1\<close> is
  \<open>NaN\<close>, printed \<open>"NaN"\<close>.
\<close>

fun template_number :: "int option \<Rightarrow> string" where
  "template_number (Some h) = number_text h"
| "template_number None = ''undefined''"

fun template_successor :: "int option \<Rightarrow> string" where
  "template_successor (Some h) = number_text (h + 1)"
| "template_successor None = ''NaN''"

definition slot_title :: "slot \<Rightarrow> string" where
  "slot_title slot =
     js_or (Some (time slot))
       (template_number (startHour slot) @ '':00 - '' @ template_successor (startHour slot) @ '':00'')"

definition cost_text :: "int option \<Rightarrow> string" where
  "cost_text c = (case c of Some v \<Rightarrow> if v \<noteq> 0 then toFixed2 v else ''-'' | None \<Rightarrow> ''-'')"

subsection \<open>Cards and the page\<close>

record card_view =
  card_key :: string
  card_title :: string
  card_status :: string
  card_highlighted :: bool
  card_booking :: "(string \<times> string) option"
  card_button :: "(string \<times> bool) option"
  card_notes :: "footer list"

definition card_of :: "dash \<Rightarrow> nat \<Rightarrow> slot \<Rightarrow> card_view" where
  "card_of s index slot =
     (let isExpanded = (expandedSlotIndex s = Some index);
          busy = (isAnalyzing s (the (session_id slot)) = Some True)
      in \<lparr>card_key = slot_id slot, card_title = slot_title slot, card_status = status slot,
          card_highlighted = isExpanded,
          card_booking = (if status slot = ''Booked''
                          then Some (js_or (bookedBy slot) ''-'', ''Rs. '' @ cost_text (cost slot)) else None),
          card_button = (if isExpanded \<and> showAnalyzeButton slot
                         then Some (if busy then ''Analyzing...'' else ''Analyze Booking'', busy) else None),
          card_notes = filter (\<lambda>f. f \<noteq> Analyze_button) (card_footer slot isExpanded)\<rparr>)"

datatype page_body = No_court_data | Court_cards "card_view list option"

record page_view =
  page_tabs :: "string list"
  page_active_tab :: string
  page_body :: page_body
  page_drawer_open :: bool
  page_drawer :: drawer_view

definition dashboard_view :: "dash \<Rightarrow> page_view" where
  "dashboard_view s =
     \<lparr>page_tabs = map court_name (courts s), page_active_tab = selectedCourtKey s,
      page_body = (case selectedCourtData (courts s) (selectedCourtKey s) of
                     None \<Rightarrow> No_court_data
                   | Some c \<Rightarrow> Court_cards (map_option (\<lambda>ys. map (\<lambda>(i, sl). card_of s i sl) (enumerate 0 ys))
                                                       (sortSlots (time_slots c)))),
      page_drawer_open = analysisDrawerOpen s, page_drawer = drawer_content s\<rparr>"

subsection \<open>What the page shows\<close>

text \<open>
  C20. In every reachable state, the analysis button of the expanded card reads
  "Analyzing..." and spins exactly while a pipeline of the card's session is
  pending, and reads "Analyze Booking" otherwise.
\<close>

theorem analyze_button_tracks_flight:
  assumes "reachable s" "expandedSlotIndex s = Some i" "showAnalyzeButton slot"
  shows "card_button (card_of s i slot) =
           (if \<exists>p\<in>set (pending s). Some (p_sid p) = session_id slot
            then Some (''Analyzing...'', True) else Some (''Analyze Booking'', False))"
proof -
  have "flags_agree s" using reachable_inv [OF assms(1)] by (simp add: dash_inv_def)
  moreover obtain sid where "session_id slot = Some sid"
    using assms(3) by (cases "session_id slot") (auto simp: showAnalyzeButton_def)
  ultimately show ?thesis using assms(2,3)
    by (auto simp: card_of_def flags_agree_def Let_def)
qed

theorem analyze_button_tracks_flight_witness:
  "card_button (card_of (run dashboard_mounted [Analyze (demo_slot\<lparr>status := ''Booked''\<rparr>),
                                                 Card_click 0 (demo_slot\<lparr>status := ''Booked''\<rparr>)])
                        0 (demo_slot\<lparr>status := ''Booked''\<rparr>)) = Some (''Analyzing...'', True)"
proof -
  let ?s = "run dashboard_mounted [Analyze (demo_slot\<lparr>status := ''Booked''\<rparr>),
                                   Card_click 0 (demo_slot\<lparr>status := ''Booked''\<rparr>)]"
  have s: "expandedSlotIndex ?s = Some 0 \<and> pending ?s = [Pipeline ''sess_xyz_mock_court1_9am'' Awaiting_trigger]"
    by (simp add: run_def handleAnalyzeBooking_def handleCardClick_def dashboard_mounted_def
                  dashboard_init_def fetchCourts_def booked_slot_def Let_def)
  have b: "showAnalyzeButton (demo_slot\<lparr>status := ''Booked''\<rparr>)"
    by (simp add: showAnalyzeButton_def booked_slot_def)
  show ?thesis
    using analyze_button_tracks_flight [OF reachable_run [OF reachable.mounted] _ b, of _ 0] s
    by (simp add: booked_slot_def)
qed

text \<open>
  C21. A card's title is the slot's \<open>time\<close> when non-empty. Otherwise it is the
  hour range printed from \<open>startHour\<close>, and for a slot with neither it is
  "undefined:00 - NaN:00".
\<close>

theorem slot_title_cases:
  "(time slot \<noteq> [] \<longrightarrow> slot_title slot = time slot) \<and>
   (time slot = [] \<longrightarrow> startHour slot = Some h \<longrightarrow>
      slot_title slot = number_text h @ '':00 - '' @ number_text (h + 1) @ '':00'') \<and>
   (time slot = [] \<longrightarrow> startHour slot = None \<longrightarrow> slot_title slot = ''undefined:00 - NaN:00'')"
  by (simp add: slot_title_def)

theorem slot_title_cases_witness:
  "slot_title (available_slot ''x'' []) = ''undefined:00 - NaN:00'' \<and>
   slot_title ((available_slot ''x'' [])\<lparr>startHour := Some 9\<rparr>) = ''9:00 - 10:00''"
proof -
  have "number_text 9 = ''9''" "number_text 10 = ''10''"
    by (simp_all add: number_text_def decimal.simps digit_char_def)
  then show ?thesis
    using slot_title_cases [of "available_slot ''x'' []"]
          slot_title_cases [of "(available_slot ''x'' [])\<lparr>startHour := Some 9\<rparr>" 9]
    by (simp add: available_slot_def)
qed

text \<open>
  C22. The cost line prints \<open>toFixed(2)\<close> of a non-zero cost and "-" for an
  absent cost, and also for a cost of 0, which is falsy in JavaScript.
\<close>

theorem cost_text_cases:
  "cost_text None = ''-'' \<and> cost_text (Some 0) = ''-'' \<and> (c \<noteq> 0 \<longrightarrow> cost_text (Some c) = number_text c @ ''.00'')"
  by (simp add: cost_text_def toFixed2_def)

theorem cost_text_cases_witness: "cost_text (Some 10) = ''10.00''"
proof -
  have "number_text 10 = ''10''" by (simp add: number_text_def decimal.simps digit_char_def)
  then show ?thesis using cost_text_cases [of 10] by simp
qed


text \<open>
  C29. Changing the tab keeps the expanded card's index. Whatever the state and
  the new tab, the card at position \<open>i\<close> of the newly selected court is drawn
  expanded exactly when the card at position \<open>i\<close> of the previous court was,
  whichever slots the two cards show. Expanding a card of Court 1 and switching
  to Court 2 therefore shows a card of Court 2 expanded.
\<close>

theorem tab_change_keeps_expanded_card:
  "card_highlighted (card_of (selectCourt k s) i slot) = card_highlighted (card_of s i slot')"
  by (simp add: card_of_def selectCourt_def fetchCourts_def Let_def)

end
