(* ===== verification/UI.thy ===== *)
theory UI
  imports Page
begin

text \<open>
  The events a user can actually cause on the rendered page
  (\<open>src/src/AdminDashboard.js\<close>, lines 151--289). A tab exists per loaded court
  (lines 156--158). A card exists per slot of the selected court (lines 166--229);
  because the order may be implementation-defined, any slot of that court may sit
  at any index, which over-approximates the page. The analysis button exists only
  under an expanded card whose slot passes \<open>showAnalyzeButton\<close> (line 205). The
  drawer's close control exists while it is open (line 241). The network may reply
  at any time. \<open>ui_reachable\<close> holds the states reached this way. They are
  reachable states of \<open>Workflow\<close>, so its invariants hold there too.
\<close>

subsection \<open>The events of the page\<close>

inductive ui_step :: "dash \<Rightarrow> event \<Rightarrow> bool" where
  tab: "k \<in> set (map court_name (courts s)) \<Longrightarrow> ui_step s (Select_court k)"
| card: "selectedCourtData (courts s) (selectedCourtKey s) = Some c \<Longrightarrow> slot \<in> set (time_slots c) \<Longrightarrow>
         i < length (time_slots c) \<Longrightarrow> ui_step s (Card_click i slot)"
| analyze: "selectedCourtData (courts s) (selectedCourtKey s) = Some c \<Longrightarrow> slot \<in> set (time_slots c) \<Longrightarrow>
            expandedSlotIndex s \<noteq> None \<Longrightarrow> showAnalyzeButton slot \<Longrightarrow> ui_step s (Analyze slot)"
| trigger_reply: "ui_step s (Trigger_settled i r)"
| results_reply: "ui_step s (Results_settled i r)"
| close: "analysisDrawerOpen s \<Longrightarrow> ui_step s Drawer_close"

subsection \<open>States reached through the page\<close>

inductive ui_reachable :: "dash \<Rightarrow> bool" where
  mounted: "ui_reachable dashboard_mounted"
| step: "ui_reachable s \<Longrightarrow> ui_step s e \<Longrightarrow> ui_reachable (dash_step s e)"

text \<open>The quiet state of the mock page: the mock courts, nothing in flight, nothing sent.\<close>

definition mock_idle :: "dash \<Rightarrow> bool" where
  "mock_idle s \<longleftrightarrow> courts s = mockData \<and> pending s = [] \<and> requests s = []"

subsection \<open>Page runs are dashboard runs\<close>

lemma ui_reachable_reachable: "ui_reachable s \<Longrightarrow> reachable s"
  by (induction rule: ui_reachable.induct) (auto intro: reachable.intros)

lemma selectedCourtData_in: "selectedCourtData cs k = Some c \<Longrightarrow> c \<in> set cs"
  by (auto simp: selectedCourtData_def find_Some_iff)

lemma mock_idle_step:
  assumes "mock_idle s" "ui_step s e"
  shows "mock_idle (dash_step s e)"
  using assms(2,1)
proof cases
  case (analyze c slot)
  then have "c \<in> set mockData" using assms(1) selectedCourtData_in by (fastforce simp: mock_idle_def)
  then show ?thesis using analyze mock_slots_no_button by blast
next
  case (trigger_reply i r)
  then show ?thesis using assms(1) by (simp add: mock_idle_def triggerSettled_def)
next
  case (results_reply i r)
  then show ?thesis using assms(1) by (simp add: mock_idle_def resultsSettled_def)
qed (use assms(1) in \<open>auto simp: mock_idle_def selectCourt_def fetchCourts_def handleCardClick_def
                                handleDrawerClose_def Let_def\<close>)

text \<open>
  C23. Through the page, with the mock data the dashboard loads, no analysis is ever
  started: in every state reached by clicks and replies the courts are the mock
  data, no pipeline is pending and no request has been sent. The analysis workflow
  is dead code until the slot status is spelt "Booked".
\<close>

theorem ui_mock_never_analyzes:
  "ui_reachable s \<Longrightarrow> courts s = mockData \<and> pending s = [] \<and> requests s = []"
proof (induction rule: ui_reachable.induct)
  case mounted
  show ?case by (simp add: dashboard_mounted_def dashboard_init_def fetchCourts_def)
next
  case (step s e)
  then show ?case using mock_idle_step [of s e] by (simp add: mock_idle_def)
qed
theorem ui_mock_never_analyzes_witness:
  "requests (dash_step dashboard_mounted (Select_court ''Court 2'')) = []"
proof -
  have "ui_step dashboard_mounted (Select_court ''Court 2'')"
    by (rule ui_step.tab) (simp add: dashboard_mounted_def dashboard_init_def fetchCourts_def mockData_def)
  then have "ui_reachable (dash_step dashboard_mounted (Select_court ''Court 2''))"
    by (rule ui_reachable.step [OF ui_reachable.mounted])
  then show ?thesis using ui_mock_never_analyzes by blast
qed

end
