(* ===== verification/AnalysisSpec.thy ===== *)
theory AnalysisSpec
  imports Workflow
begin

text \<open>
  The abstract contract of the Session Analysis Workflow Controller (spec \<section>4.2):
  each session is in one of the phases \<open>Idle\<close>, \<open>Triggering\<close>,
  \<open>AwaitingResults\<close>, \<open>Succeeded\<close>, \<open>Failed\<close>; a request is a no-op while
  the session is in flight and restarts it from any other phase; the trigger's and
  the fetch's outcomes move it on. This machine is modelled from the spec. The
  dashboard keeps no per-session outcome, so a session's concrete state is only its
  pending pipeline (\<open>flight\<close>): none corresponds to the three quiet phases, a
  pipeline waiting for the trigger to \<open>Triggering\<close>, one waiting for the results
  to \<open>AwaitingResults\<close>. The refinement theorem is a forward simulation: every
  dashboard step, read as the spec event it performs for the session
  (\<open>abs_event\<close>), keeps the correspondence.
\<close>

subsection \<open>The specification\<close>

datatype phase = Idle | Triggering | AwaitingResults | Succeeded | Failed

datatype spec_event = Request | Trigger_ok | Trigger_fail | Fetch_ok | Fetch_fail | Unrelated

fun spec_step :: "phase \<Rightarrow> spec_event \<Rightarrow> phase" where
  "spec_step Triggering Request = Triggering"
| "spec_step AwaitingResults Request = AwaitingResults"
| "spec_step _ Request = Triggering"
| "spec_step Triggering Trigger_ok = AwaitingResults"
| "spec_step Triggering Trigger_fail = Failed"
| "spec_step AwaitingResults Fetch_ok = Succeeded"
| "spec_step AwaitingResults Fetch_fail = Failed"
| "spec_step p _ = p"

definition flight :: "dash \<Rightarrow> session_id \<Rightarrow> stage option" where
  "flight s sid = map_option p_stage (find (\<lambda>p. p_sid p = sid) (pending s))"

fun corresponds :: "stage option \<Rightarrow> phase \<Rightarrow> bool" where
  "corresponds None ph = (ph = Idle \<or> ph = Succeeded \<or> ph = Failed)"
| "corresponds (Some Awaiting_trigger) ph = (ph = Triggering)"
| "corresponds (Some Awaiting_results) ph = (ph = AwaitingResults)"

definition abs_rel :: "dash \<Rightarrow> session_id \<Rightarrow> phase \<Rightarrow> bool" where
  "abs_rel s sid ph = corresponds (flight s sid) ph"

fun abs_event :: "dash \<Rightarrow> event \<Rightarrow> session_id \<Rightarrow> spec_event" where
  "abs_event s (Analyze slot) sid =
     (if truthy (session_id slot) \<and> the (session_id slot) = sid then Request else Unrelated)"
| "abs_event s (Trigger_settled i r) sid =
     (if i < length (pending s) \<and> pending s ! i = Pipeline sid Awaiting_trigger
      then (case r of Http_ok _ \<Rightarrow> Trigger_ok | Http_error _ \<Rightarrow> Trigger_fail) else Unrelated)"
| "abs_event s (Results_settled i r) sid =
     (if i < length (pending s) \<and> pending s ! i = Pipeline sid Awaiting_results
      then (case r of Http_ok _ \<Rightarrow> Fetch_ok | Http_error _ \<Rightarrow> Fetch_fail) else Unrelated)"
| "abs_event s _ sid = Unrelated"

subsection \<open>Traces\<close>

text \<open>
  A run of the dashboard, read for one session, is the trace of spec events its
  steps perform; the spec machine runs that trace.
\<close>

definition spec_run :: "phase \<Rightarrow> spec_event list \<Rightarrow> phase" where
  "spec_run ph evs = foldl spec_step ph evs"

fun abs_trace :: "dash \<Rightarrow> event list \<Rightarrow> session_id \<Rightarrow> spec_event list" where
  "abs_trace s [] sid = []"
| "abs_trace s (e # es) sid = abs_event s e sid # abs_trace (dash_step s e) es sid"

subsection \<open>Simulation, one handler at a time\<close>

lemma spec_step_Unrelated [simp]: "spec_step ph Unrelated = ph"
  by (cases ph) simp_all

lemma flight_frame: "pending t = pending s \<Longrightarrow> flight t sid = flight s sid"
  by (simp add: flight_def)

lemma flight_inv_pending:
  "dash_inv s \<Longrightarrow> flight s sid = None \<longleftrightarrow> isAnalyzing s sid \<noteq> Some True"
  by (auto simp: flight_def dash_inv_def flags_agree_def find_None_iff)

lemma flight_nth:
  "dash_inv s \<Longrightarrow> i < length (pending s) \<Longrightarrow> flight s (p_sid (pending s ! i)) = Some (p_stage (pending s ! i))"
  by (simp add: flight_def dash_inv_def pipelines_distinct_def find_unique_nth)

lemma flight_analyzeFinally_same:
  "dash_inv s \<Longrightarrow> i < length (pending s) \<Longrightarrow> flight (analyzeFinally i (p_sid (pending s ! i)) s) (p_sid (pending s ! i)) = None"
  by (simp add: flight_def dash_inv_def pipelines_distinct_def analyzeFinally_def find_remove_unique)

lemma flight_analyzeFinally_other:
  "p_sid (pending s ! i) \<noteq> sid \<Longrightarrow> flight (analyzeFinally i sid' s) sid = flight s sid"
  by (simp add: flight_def analyzeFinally_def find_remove_other)

lemma pending_analyzeCatch [simp]: "pending (analyzeCatch err s) = pending s"
  by (simp add: analyzeCatch_def)

lemma isAnalyzing_analyzeCatch [simp]: "isAnalyzing (analyzeCatch err s) = isAnalyzing s"
  by (simp add: analyzeCatch_def)

lemma flight_catch [simp]: "flight (analyzeCatch err s) sid = flight s sid"
  by (simp add: flight_def analyzeCatch_def)


lemma find_append_single: "find P (xs @ [x]) = (case find P xs of None \<Rightarrow> (if P x then Some x else None) | Some y \<Rightarrow> Some y)"
  by (induction xs) auto

lemma corresponds_in_flight: "flight s sid \<noteq> None \<Longrightarrow> corresponds (flight s sid) ph \<Longrightarrow> spec_step ph Request = ph"
  by (cases "flight s sid") (auto elim: corresponds.elims)

lemma analyze_refines:
  assumes inv: "dash_inv s" and rel: "abs_rel s sid ph"
  shows "abs_rel (handleAnalyzeBooking slot s) sid (spec_step ph (abs_event s (Analyze slot) sid))"
proof (cases "truthy (session_id slot)")
  case False
  with rel show ?thesis by (simp add: handleAnalyzeBooking_def abs_rel_def flight_def)
next
  case True
  let ?sid = "the (session_id slot)"
  show ?thesis
  proof (cases "isAnalyzing s ?sid = Some True")
    case busy: True
    have "pending (handleAnalyzeBooking slot s) = pending s"
      using True busy by (simp add: handleAnalyzeBooking_def)
    moreover have "?sid = sid \<Longrightarrow> spec_step ph Request = ph"
      using busy inv rel flight_inv_pending corresponds_in_flight by (metis abs_rel_def)
    ultimately show ?thesis using rel True
      by (auto simp: abs_rel_def flight_def)
  next
    case idle: False
    have new: "pending (handleAnalyzeBooking slot s) = pending s @ [Pipeline ?sid Awaiting_trigger]"
      using True idle by (simp add: handleAnalyzeBooking_def Let_def)
    show ?thesis
    proof (cases "?sid = sid")
      case same: True
      with idle inv have "flight s sid = None" by (simp add: flight_inv_pending)
      with rel have "spec_step ph Request = Triggering"
        by (cases ph) (simp_all add: abs_rel_def)
      moreover have "flight (handleAnalyzeBooking slot s) sid = Some Awaiting_trigger"
        using new same \<open>flight s sid = None\<close> by (simp add: flight_def find_append_single)
      ultimately show ?thesis using True same by (simp add: abs_rel_def)
    next
      case other: False
      have "flight (handleAnalyzeBooking slot s) sid = flight s sid"
        using new other by (simp add: flight_def find_append_single split: option.split)
      with rel other show ?thesis by (simp add: abs_rel_def)
    qed
  qed
qed

lemma pipeline_eq_iff: "(q = Pipeline a b) \<longleftrightarrow> p_sid q = a \<and> p_stage q = b"
  by (cases q) auto

lemma flight_update_same:
  "dash_inv s \<Longrightarrow> i < length (pending s) \<Longrightarrow>
   pending t = (pending s)[i := Pipeline (p_sid (pending s ! i)) st] \<Longrightarrow>
   flight t (p_sid (pending s ! i)) = Some st"
  by (simp add: flight_def dash_inv_def pipelines_distinct_def find_update_unique)

lemma flight_update_other:
  "p_sid (pending s ! i) \<noteq> sid \<Longrightarrow> pending t = (pending s)[i := Pipeline (p_sid (pending s ! i)) st] \<Longrightarrow>
   flight t sid = flight s sid"
  by (simp add: flight_def find_update_other)

lemma trigger_refines:
  assumes inv: "dash_inv s" and rel: "abs_rel s sid ph"
  shows "abs_rel (triggerSettled i r s) sid (spec_step ph (abs_event s (Trigger_settled i r) sid))"
proof (cases "i < length (pending s) \<and> p_stage (pending s ! i) = Awaiting_trigger")
  case False
  then have "triggerSettled i r s = s" unfolding triggerSettled_def by (rule if_not_P)
  with False rel show ?thesis by (auto simp: pipeline_eq_iff)
next
  case G: True
  show ?thesis
  proof (cases "p_sid (pending s ! i) = sid")
    case same: True
    have "flight s sid = Some Awaiting_trigger" using inv G same flight_nth by fastforce
    with rel have ph: "ph = Triggering" by (simp add: abs_rel_def)
    have ev: "pending s ! i = Pipeline sid Awaiting_trigger" using G same by (simp add: pipeline_eq_iff)
    show ?thesis
    proof (cases r)
      case (Http_ok d)
      let ?t = "s\<lparr>toasts := toasts s @ [Toast_success (trigger_toast d)],
                  requests := requests s @ [Get (results_url sid)],
                  pending := (pending s)[i := Pipeline sid Awaiting_results]\<rparr>"
      have "flight ?t sid = Some Awaiting_results"
        using flight_update_same [OF inv, of i ?t Awaiting_results] G same by simp
      then show ?thesis
        using G same ph ev Http_ok by (simp add: triggerSettled_def abs_rel_def)
    next
      case (Http_error err)
      have "dash_inv (analyzeCatch err s)" using inv by (simp add: analyzeCatch_def dash_inv_unfold)
      then have "flight (analyzeFinally i sid (analyzeCatch err s)) sid = None"
        using G same flight_analyzeFinally_same [of "analyzeCatch err s" i] by (simp add: analyzeCatch_def)
      then show ?thesis
        using G same ph ev Http_error by (simp add: triggerSettled_def abs_rel_def)
    qed
  next
    case other: False
    then have ev: "abs_event s (Trigger_settled i r) sid = Unrelated" by (auto simp: pipeline_eq_iff)
    have "flight (triggerSettled i r s) sid = flight s sid"
    proof (cases r)
      case (Http_ok d)
      let ?t = "s\<lparr>toasts := toasts s @ [Toast_success (trigger_toast d)],
                  requests := requests s @ [Get (results_url (p_sid (pending s ! i)))],
                  pending := (pending s)[i := Pipeline (p_sid (pending s ! i)) Awaiting_results]\<rparr>"
      have "flight ?t sid = flight s sid"
        using flight_update_other [of s i sid ?t Awaiting_results] other by simp
      then show ?thesis using G Http_ok by (simp add: triggerSettled_def Let_def)
    next
      case (Http_error err)
      then show ?thesis using G other flight_analyzeFinally_other [of "analyzeCatch err s" i sid]
        by (simp add: triggerSettled_def Let_def)
    qed
    with rel ev show ?thesis by (simp add: abs_rel_def)
  qed
qed

lemma results_refines:
  assumes inv: "dash_inv s" and rel: "abs_rel s sid ph"
  shows "abs_rel (resultsSettled i r s) sid (spec_step ph (abs_event s (Results_settled i r) sid))"
proof (cases "i < length (pending s) \<and> p_stage (pending s ! i) = Awaiting_results")
  case False
  then have "resultsSettled i r s = s" unfolding resultsSettled_def by (rule if_not_P)
  with False rel show ?thesis by (auto simp: pipeline_eq_iff)
next
  case G: True
  show ?thesis
  proof (cases "p_sid (pending s ! i) = sid")
    case same: True
    have "flight s sid = Some Awaiting_results" using inv G same flight_nth by fastforce
    with rel have ph: "ph = AwaitingResults" by (simp add: abs_rel_def)
    have ev: "pending s ! i = Pipeline sid Awaiting_results" using G same by (simp add: pipeline_eq_iff)
    let ?s' = "case r of Http_ok d \<Rightarrow> s\<lparr>analysisData := Some d\<rparr> | Http_error err \<Rightarrow> analyzeCatch err s"
    have p': "pending ?s' = pending s" by (simp split: http.split)
    have "dash_inv ?s'" using inv by (simp add: analyzeCatch_def dash_inv_unfold split: http.split)
    then have "flight (analyzeFinally i sid ?s') sid = None"
      using G same p' flight_analyzeFinally_same [of ?s' i] by simp
    moreover have "resultsSettled i r s = analyzeFinally i sid ?s'"
      using G same by (simp add: resultsSettled_def split: http.split)
    ultimately show ?thesis
      using ph ev G by (simp add: abs_rel_def split: http.split)
  next
    case other: False
    then have ev: "abs_event s (Results_settled i r) sid = Unrelated" by (auto simp: pipeline_eq_iff)
    have "flight (resultsSettled i r s) sid = flight s sid"
    proof (cases r)
      case (Http_ok d)
      then show ?thesis
        using G other flight_analyzeFinally_other [of "s\<lparr>analysisData := Some d\<rparr>" i sid]
        by (simp add: resultsSettled_def Let_def flight_def)
    next
      case (Http_error err)
      then show ?thesis using G other flight_analyzeFinally_other [of "analyzeCatch err s" i sid]
        by (simp add: resultsSettled_def Let_def)
    qed
    with rel ev show ?thesis by (simp add: abs_rel_def)
  qed
qed

lemma step_refines:
  assumes inv: "dash_inv s" and rel: "abs_rel s sid ph"
  shows "abs_rel (dash_step s e) sid (spec_step ph (abs_event s e sid))"
proof (cases e)
  case (Analyze slot)
  then show ?thesis using analyze_refines [OF inv rel] by simp
next
  case (Trigger_settled i r)
  then show ?thesis using trigger_refines [OF inv rel] by simp
next
  case (Results_settled i r)
  then show ?thesis using results_refines [OF inv rel] by simp
qed (use rel in \<open>simp_all add: abs_rel_def flight_def selectCourt_def fetchCourts_def
                               handleCardClick_def handleDrawerClose_def Let_def\<close>)

subsection \<open>Isolation of sessions\<close>

text \<open>
  An event that is unrelated to a session in the sense of \<open>abs_event\<close> (a click
  for another session, a reply for another session's pipeline, or any display
  event) changes neither the session's pending pipeline nor its \<open>isAnalyzing\<close>
  flag. It may still change the drawer (\<open>cross_session_result_leak\<close>).
\<close>

lemma finally_other_sid:
  "p_sid (pending s ! i) \<noteq> sid \<Longrightarrow>
   flight (analyzeFinally i (p_sid (pending s ! i)) s) sid = flight s sid \<and>
   isAnalyzing (analyzeFinally i (p_sid (pending s ! i)) s) sid = isAnalyzing s sid"
  by (simp add: flight_analyzeFinally_other) (simp add: analyzeFinally_def)

lemma analyze_isolated:
  assumes "abs_event s (Analyze slot) sid = Unrelated"
  shows "flight (handleAnalyzeBooking slot s) sid = flight s sid \<and>
         isAnalyzing (handleAnalyzeBooking slot s) sid = isAnalyzing s sid"
  using assms
  by (auto simp: handleAnalyzeBooking_def Let_def flight_def find_append_single split: option.split)

lemma trigger_isolated:
  assumes "abs_event s (Trigger_settled i r) sid = Unrelated"
  shows "flight (triggerSettled i r s) sid = flight s sid \<and>
         isAnalyzing (triggerSettled i r s) sid = isAnalyzing s sid"
proof (cases "i < length (pending s) \<and> p_stage (pending s ! i) = Awaiting_trigger")
  case False
  then have "triggerSettled i r s = s" unfolding triggerSettled_def by (rule if_not_P)
  then show ?thesis by simp
next
  case G: True
  then have other: "p_sid (pending s ! i) \<noteq> sid"
    using assms by (auto simp: pipeline_eq_iff split: http.splits)
  show ?thesis
  proof (cases r)
    case (Http_ok d)
    then show ?thesis using G other flight_update_other [of s i sid _ Awaiting_results]
      by (simp add: triggerSettled_def Let_def)
  next
    case (Http_error err)
    then show ?thesis using G other finally_other_sid [of "analyzeCatch err s" i sid]
      by (simp add: triggerSettled_def Let_def)
  qed
qed

lemma results_isolated:
  assumes "abs_event s (Results_settled i r) sid = Unrelated"
  shows "flight (resultsSettled i r s) sid = flight s sid \<and>
         isAnalyzing (resultsSettled i r s) sid = isAnalyzing s sid"
proof (cases "i < length (pending s) \<and> p_stage (pending s ! i) = Awaiting_results")
  case False
  then have "resultsSettled i r s = s" unfolding resultsSettled_def by (rule if_not_P)
  then show ?thesis by simp
next
  case G: True
  then have other: "p_sid (pending s ! i) \<noteq> sid"
    using assms by (auto simp: pipeline_eq_iff split: http.splits)
  show ?thesis
  proof (cases r)
    case (Http_ok d)
    then show ?thesis using G other finally_other_sid [of "s\<lparr>analysisData := Some d\<rparr>" i sid]
      by (simp add: resultsSettled_def Let_def flight_def)
  next
    case (Http_error err)
    then show ?thesis using G other finally_other_sid [of "analyzeCatch err s" i sid]
      by (simp add: resultsSettled_def Let_def)
  qed
qed

subsection \<open>Runs and traces\<close>

lemma abs_rel_mounted: "abs_rel dashboard_mounted sid Idle"
  by (simp add: abs_rel_def flight_def dashboard_mounted_def dashboard_init_def fetchCourts_def)

lemma run_refines:
  "dash_inv s \<Longrightarrow> abs_rel s sid ph \<Longrightarrow> abs_rel (run s es) sid (spec_run ph (abs_trace s es sid))"
proof (induction es arbitrary: s ph)
  case Nil
  then show ?case by (simp add: run_def spec_run_def)
next
  case (Cons e es)
  have "abs_rel (dash_step s e) sid (spec_step ph (abs_event s e sid))"
    using step_refines [OF Cons.prems] .
  moreover have "dash_inv (dash_step s e)" using Cons.prems(1) by (rule dash_step_inv)
  ultimately show ?case using Cons.IH by (simp add: run_def spec_run_def)
qed

subsection \<open>The refinement theorems\<close>

text \<open>
  C4. In every reachable state, for every session and every event, if the session's
  pending pipeline corresponds to a spec phase, then after the step it corresponds
  to the phase the spec's transition function gives for the event the step performs
  for that session.
\<close>

theorem dash_step_refines:
  assumes "reachable s" and "abs_rel s sid ph"
  shows "abs_rel (dash_step s e) sid (spec_step ph (abs_event s e sid))"
  using step_refines [OF reachable_inv [OF assms(1)] assms(2)] .

theorem dash_step_refines_witness:
  "abs_rel (dash_step dashboard_mounted (Analyze demo_slot)) ''sess_xyz_mock_court1_9am''
     (spec_step Idle (abs_event dashboard_mounted (Analyze demo_slot) ''sess_xyz_mock_court1_9am''))"
  by (rule dash_step_refines [OF reachable.mounted abs_rel_mounted])

text \<open>
  C28. Every run of the dashboard from its first render refines the spec machine
  started in \<open>Idle\<close>: for every session and every sequence of clicks and network
  replies, the session's pending pipeline corresponds to the phase the spec reaches
  on the trace of events the run performs for that session.
\<close>

theorem run_refines_spec:
  "abs_rel (run dashboard_mounted es) sid (spec_run Idle (abs_trace dashboard_mounted es sid))"
  using run_refines [OF dash_inv_init abs_rel_mounted] .

text \<open>
  C27. Sessions are isolated in the workflow: a step whose event is unrelated to a
  session leaves that session's pending pipeline and its \<open>isAnalyzing\<close> flag as
  they were, whatever the state.
\<close>

theorem unrelated_step_isolated:
  assumes "abs_event s e sid = Unrelated"
  shows "flight (dash_step s e) sid = flight s sid \<and> isAnalyzing (dash_step s e) sid = isAnalyzing s sid"
proof (cases e)
  case (Analyze slot)
  then show ?thesis using analyze_isolated assms by simp
next
  case (Trigger_settled i r)
  then show ?thesis using trigger_isolated assms by simp
next
  case (Results_settled i r)
  then show ?thesis using results_isolated assms by simp
qed (simp_all add: flight_def selectCourt_def fetchCourts_def handleCardClick_def handleDrawerClose_def Let_def)

theorem unrelated_step_isolated_witness:
  "flight (dash_step (run dashboard_mounted [Analyze demo_slot])
             (Analyze (booked_slot ''slot_c1_10am'' ''10:00'' ''sess_abc_mock_court1_10am'' True ''Jane Smith'' 10)))
          ''sess_xyz_mock_court1_9am'' = Some Awaiting_trigger"
proof -
  let ?s = "run dashboard_mounted [Analyze demo_slot]"
  let ?b = "booked_slot ''slot_c1_10am'' ''10:00'' ''sess_abc_mock_court1_10am'' True ''Jane Smith'' 10"
  have s: "pending ?s = [Pipeline ''sess_xyz_mock_court1_9am'' Awaiting_trigger]"
    by (simp add: run_def handleAnalyzeBooking_def dashboard_mounted_def dashboard_init_def
                  fetchCourts_def booked_slot_def Let_def)
  have "abs_event ?s (Analyze ?b) ''sess_xyz_mock_court1_9am'' = Unrelated"
    by (simp add: booked_slot_def)
  from unrelated_step_isolated [OF this] s show ?thesis by (simp add: flight_def)
qed

end
