(* ===== verification/Protocol.thy ===== *)
theory Protocol
  imports Workflow
begin

text \<open>
  The traffic the dashboard sends to the analysis service, read off the request log
  of the model (\<open>requests\<close>, the axios calls of \<open>handleAnalyzeBooking\<close>,
  \<open>src/src/AdminDashboard.js\<close> lines 102 and 107), and the growth of the logs.
  The request-log invariant \<open>requests_wf\<close> says three things. Every pending
  pipeline has a non-empty session id, and its trigger request has been sent. A
  pipeline waiting for results has also had its results request sent. A results
  request for a session is always preceded by a trigger request for that session.
  The drawer's session id, when set, is non-empty. Each handler preserves it, so it
  holds in every reachable state. Separately, every step appends at most one toast
  and at most one request and never rewrites the logs, so the logs of a run are
  bounded by its length.
\<close>

subsection \<open>The request-log invariant\<close>

definition get_after_post :: "request list \<Rightarrow> bool" where
  "get_after_post rs \<longleftrightarrow>
     (\<forall>k<length rs. \<forall>x. rs ! k = Get (results_url x) \<longrightarrow> Post (analyze_url x) \<in> set (take k rs))"

definition pending_logged :: "dash \<Rightarrow> bool" where
  "pending_logged s \<longleftrightarrow>
     (\<forall>p\<in>set (pending s). p_sid p \<noteq> [] \<and> Post (analyze_url (p_sid p)) \<in> set (requests s) \<and>
        (p_stage p = Awaiting_results \<longrightarrow> Get (results_url (p_sid p)) \<in> set (requests s)))"

definition requests_wf :: "dash \<Rightarrow> bool" where
  "requests_wf s \<longleftrightarrow> pending_logged s \<and> get_after_post (requests s) \<and> analysisSessionId s \<noteq> Some []"

lemma get_after_post_snoc:
  "get_after_post (rs @ [r]) \<longleftrightarrow>
     get_after_post rs \<and> (\<forall>x. r = Get (results_url x) \<longrightarrow> Post (analyze_url x) \<in> set rs)"
  by (auto simp: get_after_post_def nth_append less_Suc_eq)

lemma requests_wf_frame:
  assumes "requests_wf s" "requests t = requests s" "set (pending t) \<subseteq> set (pending s)"
    "analysisSessionId t = analysisSessionId s \<or> analysisSessionId t = None"
  shows "requests_wf t"
  using assms by (auto simp: requests_wf_def pending_logged_def)

lemma requests_wf_finally:
  "requests_wf s \<Longrightarrow> requests_wf (analyzeFinally i sid s)"
  by (rule requests_wf_frame [of s]) (auto simp: analyzeFinally_def dest: set_remove_nth_subset [THEN subsetD])

lemma requests_wf_catch:
  "requests_wf s \<Longrightarrow> requests_wf (analyzeCatch err s)"
  by (rule requests_wf_frame [of s]) (simp_all add: analyzeCatch_def)

lemma requests_wf_analyze:
  assumes "requests_wf s"
  shows "requests_wf (handleAnalyzeBooking slot s)"
proof (cases "truthy (session_id slot) \<and> isAnalyzing s (the (session_id slot)) \<noteq> Some True")
  case True
  then show ?thesis using assms
    by (auto simp: handleAnalyzeBooking_def Let_def requests_wf_def pending_logged_def get_after_post_snoc truthy_iff)
next
  case False
  then show ?thesis
    by (intro requests_wf_frame [OF assms]) (auto simp: handleAnalyzeBooking_def Let_def)
qed

lemma requests_wf_trigger:
  assumes wf: "requests_wf s"
  shows "requests_wf (triggerSettled i r s)"
proof (cases "i < length (pending s) \<and> p_stage (pending s ! i) = Awaiting_trigger")
  case False
  then have "triggerSettled i r s = s" unfolding triggerSettled_def by (rule if_not_P)
  with wf show ?thesis by simp
next
  case G: True
  let ?p = "pending s ! i"
  have p: "?p \<in> set (pending s)" using G by simp
  show ?thesis
  proof (cases r)
    case (Http_ok d)
    have posted: "Post (analyze_url (p_sid ?p)) \<in> set (requests s)" "p_sid ?p \<noteq> []"
      using wf p by (auto simp: requests_wf_def pending_logged_def)
    have "set ((pending s)[i := Pipeline (p_sid ?p) Awaiting_results])
            \<subseteq> insert (Pipeline (p_sid ?p) Awaiting_results) (set (pending s))"
      by (rule set_update_subset_insert)
    with wf posted have "requests_wf (s\<lparr>toasts := toasts s @ [Toast_success (trigger_toast d)],
                  requests := requests s @ [Get (results_url (p_sid ?p))],
                  pending := (pending s)[i := Pipeline (p_sid ?p) Awaiting_results]\<rparr>)"
      by (auto simp: requests_wf_def pending_logged_def get_after_post_snoc results_url_def)
    with G Http_ok show ?thesis by (simp add: triggerSettled_def Let_def)
  next
    case (Http_error err)
    with G wf show ?thesis
      by (simp add: triggerSettled_def requests_wf_finally requests_wf_catch)
  qed
qed

lemma requests_wf_results:
  assumes wf: "requests_wf s"
  shows "requests_wf (resultsSettled i r s)"
proof -
  have "requests_wf (s\<lparr>analysisData := Some d\<rparr>)" for d
    using wf by (simp add: requests_wf_def pending_logged_def)
  then show ?thesis using wf
    by (auto simp: resultsSettled_def Let_def requests_wf_finally requests_wf_catch split: http.split)
qed

lemma requests_wf_step: "requests_wf s \<Longrightarrow> requests_wf (dash_step s e)"
proof (cases e)
  case (Analyze slot)
  then show "requests_wf s \<Longrightarrow> ?thesis" by (simp add: requests_wf_analyze)
next
  case (Trigger_settled i r)
  then show "requests_wf s \<Longrightarrow> ?thesis" by (simp add: requests_wf_trigger)
next
  case (Results_settled i r)
  then show "requests_wf s \<Longrightarrow> ?thesis" by (simp add: requests_wf_results)
qed (auto intro: requests_wf_frame simp: selectCourt_def fetchCourts_def handleCardClick_def
                 handleDrawerClose_def Let_def)

lemma reachable_requests_wf: "reachable s \<Longrightarrow> requests_wf s"
proof (induction rule: reachable.induct)
  case mounted
  show ?case
    by (simp add: requests_wf_def pending_logged_def get_after_post_def dashboard_mounted_def
                  dashboard_init_def fetchCourts_def)
next
  case (step s e)
  from step.IH show ?case by (rule requests_wf_step)
qed

subsection \<open>Growth of the logs\<close>

text \<open>
  A step appends to the toasts and to the requests and rewrites neither: at most
  one toast (the load notice, a guard notice, the trigger's success or the failure)
  and at most one request (the trigger on a click, the results on the trigger's
  success), and it adds at most one pending pipeline.
\<close>

lemma dash_step_logs:
  "\<exists>ts rs. toasts (dash_step s e) = toasts s @ ts \<and> length ts \<le> 1 \<and>
          requests (dash_step s e) = requests s @ rs \<and> length rs \<le> 1 \<and>
          length (pending (dash_step s e)) \<le> Suc (length (pending s))"
proof (cases e)
  case (Trigger_settled i r)
  then show ?thesis
    using length_remove_nth_le [of i "pending s"]
    by (auto simp: triggerSettled_def analyzeFinally_def analyzeCatch_def Let_def split: http.split)
next
  case (Results_settled i r)
  then show ?thesis
    using length_remove_nth_le [of i "pending s"]
    by (auto simp: resultsSettled_def analyzeFinally_def analyzeCatch_def Let_def split: http.split)
qed (auto simp: selectCourt_def fetchCourts_def handleAnalyzeBooking_def handleCardClick_def
                handleDrawerClose_def Let_def)

subsection \<open>The protocol in every reachable state\<close>

text \<open>
  C24. The dashboard never asks for results it has not triggered: in every
  reachable state, each \<open>GET /analysis_results/{id}\<close> in the request log is
  preceded by a \<open>POST /analyze_booking/{id}\<close> for the same session.
\<close>

theorem results_request_after_trigger:
  assumes "reachable s" "k < length (requests s)" "requests s ! k = Get (results_url x)"
  shows "Post (analyze_url x) \<in> set (take k (requests s))"
  using reachable_requests_wf [OF assms(1)] assms(2,3) by (simp add: requests_wf_def get_after_post_def)

theorem results_request_after_trigger_witness:
  "Post (analyze_url ''sess_xyz_mock_court1_9am'') \<in>
     set (take 1 (requests (run dashboard_mounted [Analyze demo_slot, Trigger_settled 0 (Http_ok \<lparr>message = None\<rparr>),
                                                    Results_settled 0 (Http_ok demo_result)])))"
  using results_request_after_trigger
      [OF reachable_run [OF reachable.mounted, of "[Analyze demo_slot, Trigger_settled 0 (Http_ok \<lparr>message = None\<rparr>),
                                                    Results_settled 0 (Http_ok demo_result)]"],
       of 1 "''sess_xyz_mock_court1_9am''"]
  unfolding run_demo_done by simp

text \<open>
  C25. Well-formedness of the workflow's data in every reachable state. Every
  pending pipeline names a non-empty session id. Its trigger request is in the
  log, and so is its results request once it waits for the results. The
  drawer's session id, when set, is non-empty.
\<close>

theorem reachable_pending_well_formed:
  assumes "reachable s"
  shows "(\<forall>p\<in>set (pending s). p_sid p \<noteq> [] \<and> Post (analyze_url (p_sid p)) \<in> set (requests s) \<and>
            (p_stage p = Awaiting_results \<longrightarrow> Get (results_url (p_sid p)) \<in> set (requests s))) \<and>
         analysisSessionId s \<noteq> Some []"
  using reachable_requests_wf [OF assms] by (simp add: requests_wf_def pending_logged_def)

theorem reachable_pending_well_formed_witness:
  "Post (analyze_url ''sess_xyz_mock_court1_9am'') \<in>
     set (requests (run dashboard_mounted [Analyze demo_slot, Analyze demo_slot]))"
  using reachable_pending_well_formed [OF reachable_demo] by (simp add: run_demo)

text \<open>
  C26. The logs of a run are append-only and bounded by its length. Whatever the
  starting state and the events, the toasts and the requests after the run extend
  those before it by at most one entry per event. The number of pending pipelines
  grows by at most one per event.
\<close>

theorem run_logs_bounded:
  "\<exists>ts rs. toasts (run s es) = toasts s @ ts \<and> length ts \<le> length es \<and>
          requests (run s es) = requests s @ rs \<and> length rs \<le> length es \<and>
          length (pending (run s es)) \<le> length (pending s) + length es"
proof (induction es arbitrary: s)
  case Nil
  then show ?case by (simp add: run_def)
next
  case (Cons e es)
  obtain ts rs where step: "toasts (dash_step s e) = toasts s @ ts" "length ts \<le> 1"
      "requests (dash_step s e) = requests s @ rs" "length rs \<le> 1"
      "length (pending (dash_step s e)) \<le> Suc (length (pending s))"
    using dash_step_logs by blast
  obtain ts' rs' where rest: "toasts (run (dash_step s e) es) = toasts (dash_step s e) @ ts'" "length ts' \<le> length es"
      "requests (run (dash_step s e) es) = requests (dash_step s e) @ rs'" "length rs' \<le> length es"
      "length (pending (run (dash_step s e) es)) \<le> length (pending (dash_step s e)) + length es"
    using Cons.IH by blast
  have "run s (e # es) = run (dash_step s e) es" by (simp add: run_def)
  with step rest show ?case
    by (intro exI [of _ "ts @ ts'"] exI [of _ "rs @ rs'"]) simp
qed

end
