(* ===== verification/Spec2Isabelle.thy ===== *)
theory Spec2Isabelle
  imports UI AnalysisSpec Protocol
begin

text \<open>
  \<^bold>\<open>The admin dashboard of lashik/pickleball, verified.\<close>

  The repository has a single source file, \<open>src/src/AdminDashboard.js\<close>: a React
  component that lists the courts' time slots as cards and lets an administrator
  run a video analysis of a past booking. The analysis is
  \<open>handleAnalyzeBooking\<close> (lines 79--120), an async handler. It sends
  \<open>POST /analyze_booking/{id}\<close>, waits, sends \<open>GET /analysis_results/{id}\<close>,
  waits, and shows the outcome in a drawer. A flag map \<open>isAnalyzing\<close> guards
  against duplicate submissions. The spec (spec.md) describes this workflow as a
  per-session controller with phases \<open>Idle\<close>, \<open>Triggering\<close>,
  \<open>AwaitingResults\<close>, \<open>Succeeded\<close> and \<open>Failed\<close>.

  \<^bold>\<open>Theories and what they model.\<close>
  \<^item> \<open>Prelude\<close>: JavaScript truthiness of possibly-null strings
    (\<open>truthy\<close>), \<open>||\<close> on strings (\<open>js_or\<close>), removal of a settled
    pipeline (\<open>remove_nth\<close>), and the list and \<open>find\<close> lemmas the
    components share (collection \<open>pending_simps\<close>).
  \<^item> \<open>Courts\<close>: the slot and court objects (records), \<open>mockData\<close>
    (lines 21--42), the card order of line 167 (\<open>sortSlots\<close>, the comparator
    \<open>compareStartHour\<close> with ECMAScript's NaN rule and consistency precondition),
    \<open>selectedCourtData\<close> (line 148), \<open>showAnalyzeButton\<close> (line 170) and
    the card footers (\<open>card_footer\<close>, lines 205--225).
  \<^item> \<open>Backend\<close>: the transport through axios. It covers the request URLs
    (lines 16, 102, 107), request outcomes as the datatype \<open>http\<close> (a body, or
    the axios error), the error normalisation \<open>errorMessage\<close> (line 113) and the
    trigger toast (line 103).
  \<^item> \<open>Workflow\<close>: the component's state (record \<open>dash\<close>, the
    \<open>useState\<close> hooks of lines 46--56) and its handlers as state transformers.
    These are \<open>fetchCourts\<close>, \<open>selectCourt\<close> (tab change with the
    re-fetch effect), \<open>handleCardClick\<close>, \<open>handleDrawerClose\<close>, and
    \<open>handleAnalyzeBooking\<close> split at its two \<open>await\<close>s into the click
    (\<open>handleAnalyzeBooking\<close>), the trigger's continuation
    (\<open>triggerSettled\<close>) and the results' continuation (\<open>resultsSettled\<close>),
    with the \<open>catch\<close> and \<open>finally\<close> blocks as \<open>analyzeCatch\<close> and
    \<open>analyzeFinally\<close>. Suspended calls are the list \<open>pending\<close> of pipelines;
    toasts and requests are logged as outputs. \<open>dash_step\<close> dispatches the
    events the markup wires (lines 155--241) and the network's replies, which name
    the pending pipeline they settle. \<open>run\<close> folds a list of events, and
    \<open>reachable\<close> holds the states reached from the mounted dashboard by any
    events, i.e. any interleaving of clicks and replies for any number of sessions.
  \<^item> \<open>Drawer\<close>: what the drawer body shows (\<open>drawer_content\<close>,
    lines 246--286).
  \<^item> \<open>JsText\<close>: the JavaScript runtime's number formatting the cards call.
    \<open>number_text\<close> is \<open>Number::toString\<close> on a safe integer, as a template
    interpolation prints it (line 194). \<open>toFixed2\<close> is \<open>toFixed(2)\<close> on an
    integer cost (line 199). The printer \<open>decimal\<close> is a \<open>function\<close> with
    a termination proof (measure: the number itself). These are runtime
    definitions, not repository code, so no property is claimed of them; the card
    properties use them.
  \<^item> \<open>Page\<close>: the rendered tree as data (\<open>dashboard_view\<close>, lines
    151--289). It has the tabs, the body (the cards of the selected court in
    \<open>sortSlots\<close> order, \<open>Court_cards None\<close> when that order is
    implementation-defined, or the no-data message) and the drawer. Each card
    (\<open>card_of\<close>, lines 168--228) has its title (\<open>slot_title\<close>), status,
    booking lines (\<open>cost_text\<close>), highlight, button label and loading flag, and
    footer notes.
  \<^item> \<open>UI\<close>: the events the rendered page lets a user cause
    (\<open>ui_step\<close>: a tab per loaded court, a card per slot of the selected
    court, the button only under an expanded card that passes
    \<open>showAnalyzeButton\<close>, the drawer's close control while it is open) and any
    network reply. \<open>ui_reachable\<close> holds the states reached this way, and
    they are reachable states of \<open>Workflow\<close>.
  \<^item> \<open>AnalysisSpec\<close>: the spec's per-session machine (\<open>spec_step\<close>,
    modelled from spec \<section>4.2), the abstraction of a session's pending pipeline
    (\<open>flight\<close>, \<open>abs_rel\<close>), and the reading of a dashboard event as a
    spec event for a session (\<open>abs_event\<close>, traces \<open>abs_trace\<close>).
  \<^item> \<open>Protocol\<close>: the request log. The invariant \<open>requests_wf\<close> says
    each pending pipeline's requests have been sent, and a results request always
    follows its trigger. It also proves that the logs grow by at most one entry per
    event.
  \<^item> This theory: whole-workflow scenarios that span the components.

  \<^bold>\<open>What is proved.\<close>
  \<^item> Invariants over all reachable states, each by one preservation lemma per
    handler and rule induction on \<open>reachable\<close>:
    \<^item> at most one pipeline per session (C1);
    \<^item> \<open>isAnalyzing[id]\<close> is true exactly while that session's pipeline is
      pending (C2);
    \<^item> the spinner is on only while some pipeline is pending (C14);
    \<^item> the expanded card's button tracks its session (C20);
    \<^item> well-formed pipelines and session ids (C25);
    \<^item> no results request without its trigger before it (C24).
  \<^item> Refinement.
    \<^item> A forward simulation of the spec machine by each dashboard step, per session
      (C4): a request while in flight is a no-op, a successful trigger leads to
      \<open>AwaitingResults\<close>, and a failure leads to a quiet phase.
    \<^item> Its trace form: every run from the first render refines the spec machine
      from \<open>Idle\<close> on the run's abstract trace (C28).
    \<^item> Sessions are isolated: an unrelated event changes neither a session's
      pipeline nor its flag (C27).
  \<^item> Functional behaviour and errors on every branch, for any starting state:
    \<^item> the workflow: guards (C12), success (C5), trigger failure (C6), results
      failure with its two toasts (C30), double click (C3), re-analysis (C13);
    \<^item> the handlers and their display: card collapse (C16), drawer close (C9),
      failure display (C19), error normalisation with its full order of
      precedence (C7), URLs (C17), tab change (C29);
    \<^item> the cards: titles (C21), cost lines (C22), footers (C15).
  \<^item> Liveness without fuel (C18): the handlers contain no loop, and two replies
    settle any pending pipeline, whatever the replies are.
  \<^item> The logs are append-only, with at most one toast, one request and one new
    pipeline per event (C26).
  \<^item> The card order. With every start hour present it equals the library's stable
    \<open>sort_key\<close> (C10). It is implementation-defined exactly when some slot
    lacks a start hour (C11).
  \<^item> Findings, each proved for all states or all pairs of sessions:
    \<^item> results leak across sessions. After A, a drawer close and B, A's
      results are shown under B's title while B is in flight (C8). In every
      state, a fetch's results are shown under the drawer's session, whoever
      they belong to (C31);
    \<^item> a stale error from one session hides another session's results (C32);
    \<^item> through the page, the mock data never lets an analysis start, because of
      the case of \<open>"Booked"\<close> (C23);
    \<^item> every court of the mock data has available slots without a start hour, so
      their order is implementation-defined (C11);
    \<^item> a cost of 0 prints as "-" (C22);
    \<^item> the expanded index survives a tab change (C29).

  \<^bold>\<open>Modelling choices.\<close>
  React commits a component's state updates before the next discrete event, so
  each event reads the state the previous ones left. The continuations read no
  state variable, so no stale closure is involved. Session ids are strings, and
  JSON numbers are integers (the dashboard only displays them). The workflow's
  events name any slot, as the handler's contract allows, since \<open>/api/courts\<close>
  would supply real data. \<open>UI\<close> restricts them to what the page renders. No
  fuel is needed anywhere. The only recursion over numbers, \<open>decimal\<close>, has a
  termination proof, and the workflow has no loops.

  \<^bold>\<open>Not modelled.\<close>
  \<^item> The \<open>HeatmapDisplay\<close> component is imported but is not in the
    repository; the page records only whether it is drawn.
  \<^item> Date and clock handling (\<open>selectedDate\<close>, \<open>currentHour\<close>,
    \<open>isElapsed\<close> with dayjs) reads the wall clock, and its values are never
    used.
  \<^item> Styles and layout, and \<open>console.error\<close>.
  \<^item> The backend service is opaque: its replies are the environment's choice.
    Reply bodies are objects. A \<open>null\<close> trigger body, which would throw at
    line 103 into the \<open>catch\<close> block, is not modelled.
  \<^item> The in-place mutation of \<open>time_slots\<close> by \<open>sort\<close> (line 166).

  \<^bold>\<open>Plan for the rest of the development.\<close>
  \<^enum> The toast log per pipeline in every reachable state: one toast for a pipeline
    that succeeds, one for a trigger failure, and two for a results failure (C30
    proves the last from any quiet session).
  \<^enum> The page through \<open>UI\<close> with data other than the mock data: the button
    appears exactly for eligible slots, and the invariants of \<open>Workflow\<close> hold
    there.
\<close>

section \<open>Whole-workflow scenarios\<close>

lemmas scenario_simps = run_def handler_defs drawer_content_def Let_def nth_append

text \<open>
  C5. A request for a session that is not in flight, whose trigger and results
  requests both succeed, ends with the results on display under that session's
  title, no error, the spinner off, the session's flag reset, the pending pipelines
  as before, and exactly one trigger and one results request sent.
\<close>

theorem analyze_success_pipeline:
  assumes "session_id slot = Some sid" "sid \<noteq> []" "isAnalyzing s sid \<noteq> Some True"
  defines "n \<equiv> length (pending s)"
  shows "let s' = run s [Analyze slot, Trigger_settled n (Http_ok t), Results_settled n (Http_ok d)] in
     analysisData s' = Some d \<and> analysisError s' = None \<and> \<not> analysisLoading s' \<and>
     isAnalyzing s' sid = Some False \<and> pending s' = pending s \<and>
     requests s' = requests s @ [Post (analyze_url sid), Get (results_url sid)] \<and>
     analysisDrawerOpen s' \<and>
     drawer_content s' = Drawer_results (Some sid) (total_shots d)
                           (heatmap_data d \<noteq> None \<and> video_dimensions d \<noteq> None)"
  using assms by (simp add: scenario_simps)

theorem analyze_success_pipeline_witness:
  "analysisData (run dashboard_mounted [Analyze demo_slot, Trigger_settled 0 (Http_ok \<lparr>message = None\<rparr>),
                                         Results_settled 0 (Http_ok demo_result)]) = Some demo_result"
  using analyze_success_pipeline [of demo_slot "''sess_xyz_mock_court1_9am''" dashboard_mounted
          "\<lparr>message = None\<rparr>" demo_result]
  by (simp add: booked_slot_def dashboard_mounted_def dashboard_init_def fetchCourts_def Let_def)
text \<open>
  C6. If the trigger request fails, the error message derived from the service's
  reply is displayed, no results request is ever sent, and the session's flag is
  reset.
\<close>

theorem analyze_trigger_failure:
  assumes "session_id slot = Some sid" "sid \<noteq> []" "isAnalyzing s sid \<noteq> Some True"
  defines "n \<equiv> length (pending s)"
  shows "let s' = run s [Analyze slot, Trigger_settled n (Http_error err)] in
     analysisError s' = Some (errorMessage err) \<and> analysisData s' = None \<and> \<not> analysisLoading s' \<and>
     isAnalyzing s' sid = Some False \<and> pending s' = pending s \<and>
     requests s' = requests s @ [Post (analyze_url sid)] \<and>
     drawer_content s' = Drawer_failed (errorMessage err)"
  using assms by (simp add: scenario_simps errorMessage_nonempty)

theorem analyze_trigger_failure_witness:
  "analysisError (run dashboard_mounted [Analyze demo_slot, Trigger_settled 0
      (Http_error \<lparr>response = Some \<lparr>resp_status = 503, resp_error = Some ''capacity exceeded''\<rparr>,
                   err_message = ''Request failed with status code 503''\<rparr>)]) = Some ''capacity exceeded''"
  using analyze_trigger_failure [of demo_slot "''sess_xyz_mock_court1_9am''" dashboard_mounted
          "\<lparr>response = Some \<lparr>resp_status = 503, resp_error = Some ''capacity exceeded''\<rparr>,
             err_message = ''Request failed with status code 503''\<rparr>"]
  by (simp add: booked_slot_def dashboard_mounted_def dashboard_init_def fetchCourts_def Let_def
                errorMessage_def)

text \<open>
  C3. Two clicks on the analysis button of the same session in immediate
  succession send exactly one trigger and one results request; the second click
  only shows the "already in progress" notice.
\<close>

theorem double_click_one_trigger_one_fetch:
  assumes "session_id slot = Some sid" "sid \<noteq> []" "isAnalyzing s sid \<noteq> Some True"
  defines "n \<equiv> length (pending s)"
  shows "let s' = run s [Analyze slot, Analyze slot, Trigger_settled n (Http_ok t), Results_settled n (Http_ok d)] in
     requests s' = requests s @ [Post (analyze_url sid), Get (results_url sid)] \<and>
     Toast_plain ''Analysis is already in progress for this session.'' \<in> set (toasts s') \<and>
     pending s' = pending s \<and> analysisData s' = Some d"
  using assms by (simp add: scenario_simps)

theorem double_click_one_trigger_one_fetch_witness:
  "requests (run dashboard_mounted [Analyze demo_slot, Analyze demo_slot,
       Trigger_settled 0 (Http_ok \<lparr>message = None\<rparr>), Results_settled 0 (Http_ok demo_result)])
   = [Post (analyze_url ''sess_xyz_mock_court1_9am''), Get (results_url ''sess_xyz_mock_court1_9am'')]"
  using double_click_one_trigger_one_fetch [of demo_slot "''sess_xyz_mock_court1_9am''" dashboard_mounted
          "\<lparr>message = None\<rparr>" demo_result]
  by (simp add: booked_slot_def dashboard_mounted_def dashboard_init_def fetchCourts_def Let_def)

text \<open>
  C8. Results leak across sessions. From any state, take two distinct sessions A
  and B with no pipeline in flight. Request A, close the drawer, then request B.
  When A's trigger and results requests succeed, A's results are displayed under
  B's title and the spinner goes off, while B's trigger is still pending and B's
  button still reads "Analyzing...". The completion of a pipeline writes the single
  \<open>analysisData\<close> and \<open>analysisLoading\<close> without checking which session
  the drawer shows.
\<close>

theorem cross_session_result_leak:
  assumes "session_id slotA = Some a" "session_id slotB = Some b" "a \<noteq> []" "b \<noteq> []" "a \<noteq> b"
    "isAnalyzing s a \<noteq> Some True" "isAnalyzing s b \<noteq> Some True"
  defines "n \<equiv> length (pending s)"
  shows "let s' = run s [Analyze slotA, Drawer_close, Analyze slotB,
                         Trigger_settled n (Http_ok t), Results_settled n (Http_ok d)] in
     analysisDrawerOpen s' \<and> analysisSessionId s' = Some b \<and>
     drawer_content s' = Drawer_results (Some b) (total_shots d)
                           (heatmap_data d \<noteq> None \<and> video_dimensions d \<noteq> None) \<and>
     \<not> analysisLoading s' \<and> pending s' = pending s @ [Pipeline b Awaiting_trigger] \<and>
     isAnalyzing s' b = Some True"
  using assms by (simp add: scenario_simps remove_nth_def list_update_append)

theorem cross_session_result_leak_witness:
  "drawer_content (run dashboard_mounted
      [Analyze demo_slot, Drawer_close,
       Analyze (booked_slot ''slot_c1_10am'' ''10:00'' ''sess_abc_mock_court1_10am'' True ''Jane Smith'' 10),
       Trigger_settled 0 (Http_ok \<lparr>message = None\<rparr>), Results_settled 0 (Http_ok demo_result)])
   = Drawer_results (Some ''sess_abc_mock_court1_10am'') 5 True"
  using cross_session_result_leak
      [where slotA = demo_slot and a = "''sess_xyz_mock_court1_9am''"
         and slotB = "booked_slot ''slot_c1_10am'' ''10:00'' ''sess_abc_mock_court1_10am'' True ''Jane Smith'' 10"
         and b = "''sess_abc_mock_court1_10am''" and s = dashboard_mounted
         and t = "\<lparr>message = None\<rparr>" and d = demo_result]
  by (simp add: booked_slot_def dashboard_mounted_def dashboard_init_def fetchCourts_def Let_def)

text \<open>
  C30. If the trigger succeeds and the results request fails, the error derived
  from the reply is displayed and the session's flag is reset. Both requests have
  been sent. The run shows exactly two toasts: the trigger's success message, then
  "Analysis failed: " followed by the error.
\<close>

theorem analyze_results_failure:
  assumes "session_id slot = Some sid" "sid \<noteq> []" "isAnalyzing s sid \<noteq> Some True"
  defines "n \<equiv> length (pending s)"
  shows "let s' = run s [Analyze slot, Trigger_settled n (Http_ok t), Results_settled n (Http_error err)] in
     analysisError s' = Some (errorMessage err) \<and> analysisData s' = None \<and> \<not> analysisLoading s' \<and>
     isAnalyzing s' sid = Some False \<and> pending s' = pending s \<and>
     requests s' = requests s @ [Post (analyze_url sid), Get (results_url sid)] \<and>
     toasts s' = toasts s @ [Toast_success (trigger_toast t), Toast_error (''Analysis failed: '' @ errorMessage err)] \<and>
     drawer_content s' = Drawer_failed (errorMessage err)"
  using assms by (simp add: scenario_simps errorMessage_nonempty)

theorem analyze_results_failure_witness:
  "analysisError (run dashboard_mounted [Analyze demo_slot, Trigger_settled 0 (Http_ok \<lparr>message = None\<rparr>),
      Results_settled 0 (Http_error \<lparr>response = None, err_message = ''Network Error''\<rparr>)]) = Some ''Network Error''"
  using analyze_results_failure [of demo_slot "''sess_xyz_mock_court1_9am''" dashboard_mounted
          "\<lparr>message = None\<rparr>" "\<lparr>response = None, err_message = ''Network Error''\<rparr>"]
  by (simp add: booked_slot_def dashboard_mounted_def dashboard_init_def fetchCourts_def Let_def
                errorMessage_def)

text \<open>
  C32. One session's failure hides another session's results. From any state,
  take two distinct sessions A and B with no pipeline in flight. Request A, then
  B. A's trigger fails, and then B's trigger and fetch succeed. B's results are
  stored and both sessions have settled, but the drawer still shows A's failure,
  because the success writes \<open>analysisData\<close> without clearing
  \<open>analysisError\<close>.
\<close>

theorem failure_masks_other_success:
  assumes "session_id slotA = Some a" "session_id slotB = Some b" "a \<noteq> []" "b \<noteq> []" "a \<noteq> b"
    "isAnalyzing s a \<noteq> Some True" "isAnalyzing s b \<noteq> Some True"
  defines "n \<equiv> length (pending s)"
  shows "let s' = run s [Analyze slotA, Analyze slotB, Trigger_settled n (Http_error err),
                         Trigger_settled n (Http_ok t), Results_settled n (Http_ok d)] in
     analysisData s' = Some d \<and> pending s' = pending s \<and> analysisSessionId s' = Some b \<and>
     isAnalyzing s' a = Some False \<and> isAnalyzing s' b = Some False \<and>
     drawer_content s' = Drawer_failed (errorMessage err)"
  using assms by (simp add: scenario_simps remove_nth_def list_update_append errorMessage_nonempty)

theorem failure_masks_other_success_witness:
  "drawer_content (run dashboard_mounted
      [Analyze demo_slot,
       Analyze (booked_slot ''slot_c1_10am'' ''10:00'' ''sess_abc_mock_court1_10am'' True ''Jane Smith'' 10),
       Trigger_settled 0 (Http_error \<lparr>response = None, err_message = ''Network Error''\<rparr>),
       Trigger_settled 0 (Http_ok \<lparr>message = None\<rparr>), Results_settled 0 (Http_ok demo_result)])
   = Drawer_failed ''Network Error''"
  using failure_masks_other_success
      [where slotA = demo_slot and a = "''sess_xyz_mock_court1_9am''"
         and slotB = "booked_slot ''slot_c1_10am'' ''10:00'' ''sess_abc_mock_court1_10am'' True ''Jane Smith'' 10"
         and b = "''sess_abc_mock_court1_10am''" and s = dashboard_mounted
         and err = "\<lparr>response = None, err_message = ''Network Error''\<rparr>"
         and t = "\<lparr>message = None\<rparr>" and d = demo_result]
  by (simp add: booked_slot_def dashboard_mounted_def dashboard_init_def fetchCourts_def Let_def
                errorMessage_def)

end
